theory Spec2Isabelle
  imports Main "HOL-Library.Word"
begin

section \<open>Errors and Go values\<close>

text \<open>
  Go's \<open>error\<close> values that the state layer tells apart.  \<open>nil\<close> is \<open>None\<close> of
  \<open>error option\<close>.  \<open>ErrNotFound\<close>, \<open>ErrTxNotWritable\<close> and \<open>ErrTxClosed\<close> are the
  engine's (package \<open>buntdb\<close>); \<open>ErrNotInitialized\<close>, \<open>ErrAlreadyInitialized\<close> and
  \<open>ErrRollback\<close> are the coordinator's (package \<open>localdb\<close>); \<open>ErrNew msg\<close> is
  \<open>errors.New(msg)\<close>, and stands for every other error value as well (a failed
  persistence step, a \<open>strconv\<close> or \<open>json\<close> failure).
\<close>

datatype error =
    ErrNotInitialized
  | ErrAlreadyInitialized
  | ErrRollback
  | ErrTxNotWritable
  | ErrTxClosed
  | ErrNotFound
  | ErrNew string

type_synonym int64 = "64 word"

section \<open>Key names\<close>

text \<open>
  An identifier segment is a Go \<open>interface{}\<close> value holding a string, an integer of
  some width and signedness, or a boolean.  \<open>int\<close> and \<open>uint\<close> are taken as 64 bits
  wide.  Signed integers are read with \<open>sint\<close>, unsigned ones with \<open>uint\<close>.
\<close>

datatype segment =
    SString string
  | SBool bool
  | SInt "64 word"
  | SInt8 "8 word"
  | SInt16 "16 word"
  | SInt32 "32 word"
  | SInt64 "64 word"
  | SUint "64 word"
  | SUint8 "8 word"
  | SUint16 "16 word"
  | SUint32 "32 word"
  | SUint64 "64 word"

definition digit_char :: "nat \<Rightarrow> char" where
  "digit_char d = ''0123456789'' ! d"

text \<open>The decimal digits of a natural number, most significant first.\<close>

fun digits :: "nat \<Rightarrow> string" where
  "digits n = (if n < 10 then [digit_char n] else digits (n div 10) @ [digit_char (n mod 10)])"

declare digits.simps [simp del]

text \<open>\<open>strconv.FormatInt(i, 10)\<close> and \<open>strconv.FormatUint(u, 10)\<close>, on the value.\<close>

definition FormatInt :: "int \<Rightarrow> string" where
  "FormatInt i = (if i < 0 then CHR ''-'' # digits (nat (- i)) else digits (nat i))"

definition FormatBool :: "bool \<Rightarrow> string" where
  "FormatBool b = (if b then ''true'' else ''false'')"

fun render :: "segment \<Rightarrow> string" where
  "render (SString s) = s"
| "render (SBool b) = FormatBool b"
| "render (SInt w) = FormatInt (sint w)"
| "render (SInt8 w) = FormatInt (sint w)"
| "render (SInt16 w) = FormatInt (sint w)"
| "render (SInt32 w) = FormatInt (sint w)"
| "render (SInt64 w) = FormatInt (sint w)"
| "render (SUint w) = FormatInt (uint w)"
| "render (SUint8 w) = FormatInt (uint w)"
| "render (SUint16 w) = FormatInt (uint w)"
| "render (SUint32 w) = FormatInt (uint w)"
| "render (SUint64 w) = FormatInt (uint w)"

text \<open>\<open>strings.Join(elems, sep)\<close>.\<close>

fun Join :: "string list \<Rightarrow> string \<Rightarrow> string" where
  "Join [] sep = []"
| "Join [x] sep = x"
| "Join (x # y # ys) sep = x @ sep @ Join (y # ys) sep"

text \<open>
  Modelled from the spec: \<open>NamedKey\<close> of package \<open>localdb\<close>, whose source file is not
  part of the sources (only its test \<open>TestNamedKey\<close> is).  The spec: a key is the
  colon-joined string of the type tag, then each identifier segment rendered in its
  natural textual form (integers as decimal, booleans as true/false, strings
  verbatim).
\<close>

definition NamedKey :: "string \<Rightarrow> segment list \<Rightarrow> string" where
  "NamedKey name keys = Join (name # map render keys) '':''"

text \<open>
  A \<open>KeyPatternFunc\<close> builds a key from segments.  The key builders of the
  \<open>StateManager\<close> (the methods of the embedded \<open>extraKey\<close>) are declared in a file that
  is not part of the sources, so they are a parameter: the record \<open>extraKey\<close> holds
  one builder per record family.
\<close>

type_synonym KeyPatternFunc = "segment list \<Rightarrow> string"

record extraKey =
  UserInfoKey :: KeyPatternFunc
  UserStatKey :: KeyPatternFunc
  CurrentLiveKey :: KeyPatternFunc
  CurrentNewsKey :: KeyPatternFunc
  DynamicIdKey :: KeyPatternFunc
  NotLiveKey :: KeyPatternFunc
  UidFirstTimestamp :: KeyPatternFunc

section \<open>The engine: one store, one transaction per execution chain\<close>

text \<open>
  \<open>buntdb.SetOptions\<close>; a stored item keeps its value and, when it was written with
  \<open>Expires\<close> set, the time to live it was written with (a \<open>time.Duration\<close>, an
  \<open>int64\<close> of nanoseconds).  The passing of time, and with it the removal of expired
  items, is not part of the model: in particular an item written with a time to
  live of zero or less, which the engine treats as expired at once, stays readable
  here.
\<close>

record SetOptions =
  Expires :: bool
  TTL :: int64

record dbItem =
  val :: string
  ttl :: "int64 option"

type_synonym store = "string \<rightharpoonup> dbItem"

record Tx =
  writable :: bool
  items :: store

text \<open>How a read-write transaction of the engine ended.\<close>

datatype ending = Commit | Rollback

text \<open>
  The state one execution chain sees.  \<open>client\<close> is the process-wide engine handle
  (\<open>None\<close> before \<open>InitBuntDB\<close>), holding the committed store.  \<open>open_tx\<close> is the
  transaction open on this chain.  \<open>commit_fault\<close> is what the engine's persistence
  step answers when a commit is attempted (\<open>None\<close>: it succeeds; an exhausted disk is
  \<open>Some e\<close>).  \<open>endings\<close> records, oldest first, every ending of a read-write
  transaction the engine performed; nothing reads it, it only lets "exactly once" be
  stated.
\<close>

record chain =
  client :: "store option"
  open_tx :: "Tx option"
  commit_fault :: "error option"
  endings :: "ending list"

definition fresh :: chain where
  "fresh = \<lparr>client = None, open_tx = None, commit_fault = None, endings = []\<rparr>"

text \<open>What a read on this chain sees: the open transaction's items, else the store.\<close>

definition lookup :: "chain \<Rightarrow> string \<Rightarrow> dbItem option" where
  "lookup s key = (case open_tx s of
      Some tx \<Rightarrow> items tx key
    | None \<Rightarrow> (case client s of None \<Rightarrow> None | Some d \<Rightarrow> d key))"

text \<open>
  The engine's \<open>tx.Set\<close>, \<open>tx.Get\<close> and \<open>tx.Delete\<close>, on the transaction open on the
  chain (the handle a callback is given is that transaction).  They return what the
  Go methods return, the error last.
\<close>

definition tx_Set :: "string \<Rightarrow> string \<Rightarrow> SetOptions option \<Rightarrow> chain \<Rightarrow> (string \<times> bool \<times> error option) \<times> chain" where
  "tx_Set key v opts s = (case open_tx s of
      None \<Rightarrow> (([], False, Some ErrTxClosed), s)
    | Some tx \<Rightarrow>
        if \<not> writable tx then (([], False, Some ErrTxNotWritable), s)
        else
          let item = \<lparr>val = v,
                      ttl = (case opts of None \<Rightarrow> None
                             | Some opt \<Rightarrow> if Expires opt then Some (TTL opt) else None)\<rparr>
          in (((case items tx key of None \<Rightarrow> [] | Some prev \<Rightarrow> val prev),
               items tx key \<noteq> None, None),
              s\<lparr>open_tx := Some (tx\<lparr>items := (items tx)(key \<mapsto> item)\<rparr>)\<rparr>))"

definition tx_Get :: "string \<Rightarrow> chain \<Rightarrow> (string \<times> error option) \<times> chain" where
  "tx_Get key s = (case open_tx s of
      None \<Rightarrow> (([], Some ErrTxClosed), s)
    | Some tx \<Rightarrow> (case items tx key of
          None \<Rightarrow> (([], Some ErrNotFound), s)
        | Some item \<Rightarrow> ((val item, None), s)))"

definition tx_Delete :: "string \<Rightarrow> chain \<Rightarrow> (string \<times> error option) \<times> chain" where
  "tx_Delete key s = (case open_tx s of
      None \<Rightarrow> (([], Some ErrTxClosed), s)
    | Some tx \<Rightarrow>
        if \<not> writable tx then (([], Some ErrTxNotWritable), s)
        else (case items tx key of
            None \<Rightarrow> (([], Some ErrNotFound), s)
          | Some item \<Rightarrow>
              ((val item, None), s\<lparr>open_tx := Some (tx\<lparr>items := (items tx)(key := None)\<rparr>)\<rparr>)))"

section \<open>The transaction coordinator\<close>

text \<open>
  A callback is a Go closure \<open>func(tx *buntdb.Tx) error\<close>.  It runs on the chain and
  may assign variables it captured: \<open>'l\<close> is the tuple of those variables, passed in
  and returned with the error.
\<close>

type_synonym 'l callback = "'l \<Rightarrow> chain \<Rightarrow> (error option \<times> 'l) \<times> chain"

text \<open>
  The engine ends the write transaction open on the chain.  \<open>commit\<close> fails
  whenever \<open>commit_fault\<close> is set; the engine itself has nothing to persist, and so
  cannot fail, when the transaction wrote nothing, a case the model does not set
  apart.
\<close>

definition rollback :: "chain \<Rightarrow> chain" where
  "rollback s = s\<lparr>open_tx := None, endings := endings s @ [Rollback]\<rparr>"

definition commit :: "chain \<Rightarrow> error option \<times> chain" where
  "commit s = (case commit_fault s of
      Some e \<Rightarrow> (Some e, rollback s)
    | None \<Rightarrow> (None, s\<lparr>client := (case open_tx s of None \<Rightarrow> client s | Some tx \<Rightarrow> Some (items tx)),
                       open_tx := None, endings := endings s @ [Commit]\<rparr>))"

text \<open>
  Modelled from the spec: \<open>RWCoverTx\<close> of package \<open>localdb\<close> (the \<open>StateManager\<close>'s
  method of this name is the same function), whose source file is not part of the
  sources; only its tests are.  The spec, for \<open>withReadWrite\<close>: no operation may
  run before a successful init; if no transaction is open, open a new read-write
  transaction, run the callback, commit if it returns nil, else roll back and return
  that same error unchanged; if a read-write transaction is already open, reuse it,
  the inner call's return value passing through; if a read-only transaction is open,
  fail immediately with NotWritable.  A failure of persistence surfaces at commit
  time and is the call's return value.
\<close>

definition RWCoverTx :: "'l callback \<Rightarrow> 'l callback" where
  "RWCoverTx f l s = (case client s of
      None \<Rightarrow> ((Some ErrNotInitialized, l), s)
    | Some d \<Rightarrow> (case open_tx s of
          Some tx \<Rightarrow> if writable tx then f l s else ((Some ErrTxNotWritable, l), s)
        | None \<Rightarrow> (case f l (s\<lparr>open_tx := Some \<lparr>writable = True, items = d\<rparr>\<rparr>) of
              ((Some e, l'), s') \<Rightarrow> ((Some e, l'), rollback s')
            | ((None, l'), s') \<Rightarrow> (case commit s' of (r, s'') \<Rightarrow> ((r, l'), s'')))))"

text \<open>
  Modelled from the spec: \<open>RCoverTx\<close> of package \<open>localdb\<close> (not part of the
  sources).  The spec, for \<open>withRead\<close>: if no transaction is open, open a new
  read-only transaction, run the callback, discard it afterward; if a transaction of
  either mode is open, reuse it.
\<close>

definition RCoverTx :: "'l callback \<Rightarrow> 'l callback" where
  "RCoverTx f l s = (case client s of
      None \<Rightarrow> ((Some ErrNotInitialized, l), s)
    | Some d \<Rightarrow> (case open_tx s of
          Some tx \<Rightarrow> f l s
        | None \<Rightarrow> (case f l (s\<lparr>open_tx := Some \<lparr>writable = False, items = d\<rparr>\<rparr>) of
              (r, s') \<Rightarrow> (r, s'\<lparr>open_tx := None\<rparr>))))"

section \<open>The state repository\<close>

text \<open>
  The records of package \<open>bilibili\<close> are declared in files that are not part of the
  sources.  Each is modelled by the fields the repository reads and by the text its
  \<open>ToString\<close> method returns.  A Go pointer that may be nil is an \<open>option\<close>.
\<close>

record UserInfo =
  Mid :: int64
  UserInfo_ToString :: string

record UserStat =
  UserStat_Mid :: int64
  UserStat_ToString :: string

record LiveInfo =
  LiveInfo_UserInfo :: UserInfo
  LiveInfo_ToString :: string

record NewsInfo =
  NewsInfo_UserInfo :: UserInfo
  NewsInfo_ToString :: string

text \<open>
  Modelled from the spec: \<open>ExpireOption\<close> of package \<open>localdb\<close> (not part of the
  sources; its test is).  The spec: a TTL value of zero/none means "no expiry".
\<close>

definition ExpireOption :: "int64 \<Rightarrow> SetOptions option" where
  "ExpireOption d = (if d = 0 then None else Some \<lparr>Expires = True, TTL = d\<rparr>)"

text \<open>\<open>time.Hour\<close>, in nanoseconds.\<close>

definition Hour :: int64 where
  "Hour = 3600000000000"

definition AddUserInfo :: "extraKey \<Rightarrow> UserInfo option \<Rightarrow> chain \<Rightarrow> error option \<times> chain" where
  "AddUserInfo c userInfo s = (case userInfo of
      None \<Rightarrow> (Some (ErrNew ''nil UserInfo''), s)
    | Some u \<Rightarrow>
        (case RWCoverTx (\<lambda>l s.
                let key = UserInfoKey c [SInt64 (Mid u)] in
                case tx_Set key (UserInfo_ToString u) None s of
                  ((_, _, err), s') \<Rightarrow> ((err, l), s')) () s of
           ((err, _), s') \<Rightarrow> (err, s')))"

definition AddUserStat :: "extraKey \<Rightarrow> UserStat option \<Rightarrow> SetOptions option \<Rightarrow> chain \<Rightarrow> error option \<times> chain" where
  "AddUserStat c userStat opt s = (case userStat of
      None \<Rightarrow> (Some (ErrNew ''nil UserStat''), s)
    | Some u \<Rightarrow>
        (case RWCoverTx (\<lambda>l s.
                case tx_Set (UserStatKey c [SInt64 (UserStat_Mid u)]) (UserStat_ToString u) opt s of
                  ((_, _, err), s') \<Rightarrow> ((err, l), s')) () s of
           ((err, _), s') \<Rightarrow> (err, s')))"

definition AddLiveInfo :: "extraKey \<Rightarrow> LiveInfo option \<Rightarrow> chain \<Rightarrow> error option \<times> chain" where
  "AddLiveInfo c liveInfo s = (case liveInfo of
      None \<Rightarrow> (Some (ErrNew ''nil LiveInfo''), s)
    | Some li \<Rightarrow>
        (case RWCoverTx (\<lambda>l s.
                case tx_Set (UserInfoKey c [SInt64 (Mid (LiveInfo_UserInfo li))])
                       (UserInfo_ToString (LiveInfo_UserInfo li)) None s of
                  ((_, _, Some err), s') \<Rightarrow> ((Some err, l), s')
                | ((_, _, None), s') \<Rightarrow>
                    (case tx_Set (CurrentLiveKey c [SInt64 (Mid (LiveInfo_UserInfo li))])
                            (LiveInfo_ToString li) (ExpireOption (Hour * 24 * 7)) s' of
                       ((_, _, err), s'') \<Rightarrow> ((err, l), s''))) () s of
           ((err, _), s') \<Rightarrow> (err, s')))"

definition AddNewsInfo :: "extraKey \<Rightarrow> NewsInfo option \<Rightarrow> chain \<Rightarrow> error option \<times> chain" where
  "AddNewsInfo c newsInfo s = (case newsInfo of
      None \<Rightarrow> (Some (ErrNew ''nil NewsInfo''), s)
    | Some ni \<Rightarrow>
        (case RWCoverTx (\<lambda>l s.
                case tx_Set (UserInfoKey c [SInt64 (Mid (NewsInfo_UserInfo ni))])
                       (UserInfo_ToString (NewsInfo_UserInfo ni)) None s of
                  ((_, _, Some err), s') \<Rightarrow> ((Some err, l), s')
                | ((_, _, None), s') \<Rightarrow>
                    (case tx_Set (CurrentNewsKey c [SInt64 (Mid (NewsInfo_UserInfo ni))])
                            (NewsInfo_ToString ni) None s' of
                       ((_, _, err), s'') \<Rightarrow> ((err, l), s''))) () s of
           ((err, _), s') \<Rightarrow> (err, s')))"

definition DeleteNewsInfo :: "extraKey \<Rightarrow> int64 \<Rightarrow> chain \<Rightarrow> error option \<times> chain" where
  "DeleteNewsInfo c mid s =
     (case RWCoverTx (\<lambda>l s.
             case tx_Delete (CurrentNewsKey c [SInt64 mid]) s of
               ((_, err), s') \<Rightarrow> ((err, l), s')) () s of
        ((err, _), s') \<Rightarrow> (err, s'))"

definition DeleteLiveInfo :: "extraKey \<Rightarrow> int64 \<Rightarrow> chain \<Rightarrow> error option \<times> chain" where
  "DeleteLiveInfo c mid s =
     (case RWCoverTx (\<lambda>l s.
             case tx_Delete (CurrentLiveKey c [SInt64 mid]) s of
               ((_, err), s') \<Rightarrow> ((err, l), s')) () s of
        ((err, _), s') \<Rightarrow> (err, s'))"

definition DeleteNewsAndLiveInfo :: "extraKey \<Rightarrow> int64 \<Rightarrow> chain \<Rightarrow> error option \<times> chain" where
  "DeleteNewsAndLiveInfo c mid s =
     (case RWCoverTx (\<lambda>l s.
             case tx_Delete (CurrentLiveKey c [SInt64 mid]) s of
               ((_, err), s') \<Rightarrow>
                 if err \<noteq> None \<and> err \<noteq> Some ErrNotFound then ((err, l), s')
                 else (case tx_Delete (CurrentNewsKey c [SInt64 mid]) s' of
                         ((_, err), s'') \<Rightarrow> ((err, l), s''))) () s of
        ((err, _), s') \<Rightarrow> (err, s'))"

text \<open>The loop of \<open>ClearByMid\<close> over the collected errors.\<close>

fun first_failure :: "error option list \<Rightarrow> error option" where
  "first_failure [] = None"
| "first_failure (e # es) =
     (if e \<noteq> None \<and> e \<noteq> Some ErrNotFound then e else first_failure es)"

definition ClearByMid :: "extraKey \<Rightarrow> int64 \<Rightarrow> chain \<Rightarrow> error option \<times> chain" where
  "ClearByMid c mid s =
     (case RWCoverTx (\<lambda>l s.
             let errs = [] in
             case tx_Delete (CurrentLiveKey c [SInt64 mid]) s of ((_, err), s1) \<Rightarrow>
             let errs = errs @ [err] in
             case tx_Delete (CurrentNewsKey c [SInt64 mid]) s1 of ((_, err), s2) \<Rightarrow>
             let errs = errs @ [err] in
             case tx_Delete (UidFirstTimestamp c [SInt64 mid]) s2 of ((_, err), s3) \<Rightarrow>
             let errs = errs @ [err] in
             case tx_Delete (UserInfoKey c [SInt64 mid]) s3 of ((_, err), s4) \<Rightarrow>
             let errs = errs @ [err] in
             case tx_Delete (NotLiveKey c [SInt64 mid]) s4 of ((_, err), s5) \<Rightarrow>
             let errs = errs @ [err] in
             ((first_failure errs, l), s5)) () s of
        ((err, _), s') \<Rightarrow> (err, s'))"

text \<open>
  \<open>CheckDynamicId\<close>: the callback assigns the captured named result \<open>result\<close>, which
  starts as \<open>false\<close>.
\<close>

definition CheckDynamicId :: "extraKey \<Rightarrow> int64 \<Rightarrow> chain \<Rightarrow> bool \<times> chain" where
  "CheckDynamicId c dynamic s =
     (case RCoverTx (\<lambda>result s.
             let key = DynamicIdKey c [SInt64 dynamic] in
             case tx_Get key s of
               ((_, None), s') \<Rightarrow> ((None, False), s')
             | ((_, Some err), s') \<Rightarrow>
                 if err = ErrNotFound then ((None, True), s')
                 else ((Some err, result), s')) False s of
        ((None, result), s') \<Rightarrow> (result, s')
      | ((Some err, result), s') \<Rightarrow> (False, s'))"

subsection \<open>Counters\<close>

definition is_digit :: "char \<Rightarrow> bool" where
  "is_digit ch = (ch \<in> set ''0123456789'')"

definition digit_val :: "char \<Rightarrow> nat" where
  "digit_val ch = of_char ch - 48"

definition parse_digits :: "string \<Rightarrow> nat" where
  "parse_digits ds = foldl (\<lambda>a ch. 10 * a + digit_val ch) 0 ds"

text \<open>\<open>strconv.ParseInt(str, 10, 64)\<close>.\<close>

definition ParseInt :: "string \<Rightarrow> error + int64" where
  "ParseInt str =
     (let neg = (str \<noteq> [] \<and> hd str = CHR ''-'');
          ds = (if str \<noteq> [] \<and> (hd str = CHR ''-'' \<or> hd str = CHR ''+'') then tl str else str)
      in if ds = [] \<or> \<not> list_all is_digit ds then Inl (ErrNew ''invalid syntax'')
         else
           let n = int (parse_digits ds) in
           if neg then (if n \<le> 2 ^ 63 then Inr (word_of_int (- n))
                        else Inl (ErrNew ''value out of range''))
           else (if n < 2 ^ 63 then Inr (word_of_int n)
                 else Inl (ErrNew ''value out of range'')))"

text \<open>
  Modelled from the spec: \<open>SeqNext\<close> of package \<open>localdb\<close> (not part of the sources).
  The spec: read-write, atomically bumps a per-key integer counter and returns the
  new value; counters store their decimal textual form.  A counter that is absent
  counts as 0.  The result variable is captured by the callback and returned with
  the error of the cover call.
\<close>

definition SeqNext :: "string \<Rightarrow> chain \<Rightarrow> (int64 \<times> error option) \<times> chain" where
  "SeqNext key s =
     (case RWCoverTx (\<lambda>result s.
             case tx_Get key s of
               ((oldVal, err), s') \<Rightarrow>
                 if err \<noteq> None \<and> err \<noteq> Some ErrNotFound then ((err, result), s')
                 else (case ParseInt (if err = Some ErrNotFound then ''0'' else oldVal) of
                     Inl e \<Rightarrow> ((Some e, result), s')
                   | Inr old \<Rightarrow>
                       (case tx_Set key (FormatInt (sint (old + 1))) None s' of
                          ((_, _, err), s'') \<Rightarrow> ((err, old + 1), s'')))) 0 s of
        ((err, result), s') \<Rightarrow> ((result, err), s'))"

definition IncNotLiveCount :: "extraKey \<Rightarrow> int64 \<Rightarrow> chain \<Rightarrow> int64 \<times> chain" where
  "IncNotLiveCount c uid s =
     (case SeqNext (NotLiveKey c [SInt64 uid]) s of
        ((result, err), s') \<Rightarrow> ((if err \<noteq> None then 0 else result), s'))"

subsection \<open>Credentials\<close>

text \<open>
  \<open>LoginResponse_Data_CookieInfo\<close> and its cookies are generated types that are not
  part of the sources: modelled by what \<open>SetCookieInfo\<close> reads.  \<open>GetExpires\<close> is the
  nil-safe getter.  \<open>json.Marshal\<close> and the clock \<open>time.Now().Unix()\<close> are parameters
  of \<open>SetCookieInfo\<close>, and so is the key builder
  \<open>localdb.BilibiliUserCookieInfoKey\<close>.
\<close>

record Cookie =
  Cookie_Expires :: int64

record CookieInfo =
  Cookies :: "Cookie option list"

definition GetExpires :: "Cookie option \<Rightarrow> int64" where
  "GetExpires cookie = (case cookie of None \<Rightarrow> 0 | Some ck \<Rightarrow> Cookie_Expires ck)"

text \<open>\<open>time.Second\<close>, in nanoseconds.\<close>

definition Second :: int64 where
  "Second = 1000000000"

definition SetCookieInfo :: "KeyPatternFunc \<Rightarrow> (CookieInfo \<Rightarrow> error + string) \<Rightarrow> int64 \<Rightarrow> string \<Rightarrow> CookieInfo option \<Rightarrow> chain \<Rightarrow> error option \<times> chain" where
  "SetCookieInfo BilibiliUserCookieInfoKey Marshal now username cookieInfo s =
     (case cookieInfo of
        None \<Rightarrow> (Some (ErrNew ''<nil> cookieInfo''), s)
      | Some ci \<Rightarrow>
          (case RWCoverTx (\<lambda>l s.
                  let key = BilibiliUserCookieInfoKey [SString username] in
                  case Marshal ci of
                    Inl err \<Rightarrow> ((Some err, l), s)
                  | Inr cookieData \<Rightarrow>
                      let expire = (case Cookies ci of [] \<Rightarrow> 0 | cookie # _ \<Rightarrow> GetExpires cookie) in
                      if expire \<noteq> 0
                      then (case tx_Set key cookieData (ExpireOption ((expire - now) * Second)) s of
                              ((_, _, err), s') \<Rightarrow> ((err, l), s'))
                      else (case tx_Set key cookieData None s of
                              ((_, _, err), s') \<Rightarrow> ((err, l), s'))) () s of
             ((err, _), s') \<Rightarrow> (err, s')))"

section \<open>The engine handle\<close>

text \<open>
  Modelled from the spec: \<open>InitBuntDB\<close> of package \<open>localdb\<close> (not part of the
  sources; its tests are).  The spec: \<open>init(target)\<close> opens the engine (target is
  either a durable path or an in-memory mode) and fails with AlreadyInitialized if
  called twice.  What the engine finds at a durable path, or the error of opening
  it, is the parameter \<open>disk\<close>; the in-memory engine starts empty.
\<close>

datatype target = MEMORYDB | Path string

definition InitBuntDB :: "(string \<Rightarrow> error + store) \<Rightarrow> target \<Rightarrow> chain \<Rightarrow> error option \<times> chain" where
  "InitBuntDB disk dbpath s = (case client s of
      Some d \<Rightarrow> (Some ErrAlreadyInitialized, s)
    | None \<Rightarrow>
        (case (case dbpath of MEMORYDB \<Rightarrow> Inr Map.empty | Path p \<Rightarrow> disk p) of
           Inl e \<Rightarrow> (Some e, s)
         | Inr d \<Rightarrow> (None, s\<lparr>client := Some d\<rparr>)))"

text \<open>
  Modelled from the spec: \<open>GetClient\<close> of package \<open>localdb\<close> (not part of the
  sources; its test is).  The spec: \<open>client()\<close> gives the current handle or fails with
  NotInitialized.  The handle is modelled by the store it gives access to.
\<close>

definition GetClient :: "chain \<Rightarrow> error + store" where
  "GetClient s = (case client s of None \<Rightarrow> Inl ErrNotInitialized | Some d \<Rightarrow> Inr d)"

section \<open>Callback bodies\<close>

text \<open>
  The bodies of callbacks as the tests of the coordinator write them: operations on
  the transaction handle, an explicit return, nested cover calls, and two ways to
  go on after a statement: \<open>Then a b\<close> returns the error of \<open>a\<close> at once
  (\<open>if err != nil { return err }\<close>) and otherwise runs \<open>b\<close>; \<open>Ignore a b\<close> runs \<open>b\<close>
  whatever \<open>a\<close> returned (the variable holding the error is overwritten, as in
  \<open>set2Fn\<close> of \<open>TestRWTxCover2\<close>).  \<open>run\<close> gives the callback a body stands for.
\<close>

datatype script =
    TxSet string string "SetOptions option"
  | TxGet string
  | TxDelete string
  | Return "error option"
  | Then script script
  | Ignore script script
  | NestedRW script
  | NestedR script

primrec run :: "script \<Rightarrow> unit callback" where
  "run (TxSet key v opts) = (\<lambda>l s. case tx_Set key v opts s of ((_, _, err), s') \<Rightarrow> ((err, l), s'))"
| "run (TxGet key) = (\<lambda>l s. case tx_Get key s of ((_, err), s') \<Rightarrow> ((err, l), s'))"
| "run (TxDelete key) = (\<lambda>l s. case tx_Delete key s of ((_, err), s') \<Rightarrow> ((err, l), s'))"
| "run (Return e) = (\<lambda>l s. ((e, l), s))"
| "run (Then a b) = (\<lambda>l s. case run a l s of
        ((Some e, l'), s') \<Rightarrow> ((Some e, l'), s')
      | ((None, l'), s') \<Rightarrow> run b l' s')"
| "run (Ignore a b) = (\<lambda>l s. case run a l s of ((_, l'), s') \<Rightarrow> run b l' s')"
| "run (NestedRW a) = RWCoverTx (run a)"
| "run (NestedR a) = RCoverTx (run a)"

text \<open>
  A body is \<open>propagating\<close> when it never goes on after an error: it has no \<open>Ignore\<close>,
  so each callback in it returns the first error one of its statements gives, a
  nested cover call's included.
\<close>

primrec propagating :: "script \<Rightarrow> bool" where
  "propagating (TxSet key v opts) = True"
| "propagating (TxGet key) = True"
| "propagating (TxDelete key) = True"
| "propagating (Return e) = True"
| "propagating (Then a b) = (propagating a \<and> propagating b)"
| "propagating (Ignore a b) = False"
| "propagating (NestedRW a) = propagating a"
| "propagating (NestedR a) = propagating a"

text \<open>
  \<open>nested_returns body s err\<close>: while \<open>body\<close> runs on the chain \<open>s\<close>, the callback of
  some cover call nested in it, at any depth, is run and returns \<open>err\<close>.
\<close>

primrec nested_returns :: "script \<Rightarrow> chain \<Rightarrow> error \<Rightarrow> bool" where
  "nested_returns (TxSet key v opts) = (\<lambda>s err. False)"
| "nested_returns (TxGet key) = (\<lambda>s err. False)"
| "nested_returns (TxDelete key) = (\<lambda>s err. False)"
| "nested_returns (Return e) = (\<lambda>s err. False)"
| "nested_returns (Then a b) = (\<lambda>s err.
      nested_returns a s err
      \<or> (fst (fst (run a () s)) = None \<and> nested_returns b (snd (run a () s)) err))"
| "nested_returns (Ignore a b) = (\<lambda>s err.
      nested_returns a s err \<or> nested_returns b (snd (run a () s)) err)"
| "nested_returns (NestedRW a) = (\<lambda>s err. case client s of
        None \<Rightarrow> False
      | Some d \<Rightarrow> (case open_tx s of
            Some tx \<Rightarrow> writable tx \<and> (fst (fst (run a () s)) = Some err \<or> nested_returns a s err)
          | None \<Rightarrow>
              fst (fst (run a () (s\<lparr>open_tx := Some \<lparr>writable = True, items = d\<rparr>\<rparr>))) = Some err
              \<or> nested_returns a (s\<lparr>open_tx := Some \<lparr>writable = True, items = d\<rparr>\<rparr>) err))"
| "nested_returns (NestedR a) = (\<lambda>s err. case client s of
        None \<Rightarrow> False
      | Some d \<Rightarrow> (case open_tx s of
            Some tx \<Rightarrow> fst (fst (run a () s)) = Some err \<or> nested_returns a s err
          | None \<Rightarrow>
              fst (fst (run a () (s\<lparr>open_tx := Some \<lparr>writable = False, items = d\<rparr>\<rparr>))) = Some err
              \<or> nested_returns a (s\<lparr>open_tx := Some \<lparr>writable = False, items = d\<rparr>\<rparr>) err))"

section \<open>Auxiliary definitions\<close>

text \<open>
  Modelled from the spec: \<open>NewExtraKey\<close>, the key builders of the \<open>StateManager\<close>
  (declared in a file that is not part of the sources).  The spec: each distinct
  entity family has exactly one tag, and a key is the tag joined with its segments.
  The spelling of the tags is not in the sources; the theorems below hold for any
  \<open>extraKey\<close>, and this one serves to evaluate them on concrete chains.
\<close>

definition NewExtraKey :: extraKey where
  "NewExtraKey = \<lparr>UserInfoKey = NamedKey ''UserInfo'', UserStatKey = NamedKey ''UserStat'',
     CurrentLiveKey = NamedKey ''CurrentLive'', CurrentNewsKey = NamedKey ''CurrentNews'',
     DynamicIdKey = NamedKey ''DynamicId'', NotLiveKey = NamedKey ''NotLive'',
     UidFirstTimestamp = NamedKey ''UidFirstTimestamp''\<rparr>"

text \<open>The integer a decimal text denotes: an optional minus sign, then digits.\<close>

definition decimal_value :: "string \<Rightarrow> int" where
  "decimal_value str =
     (if str \<noteq> [] \<and> hd str = CHR ''-'' then - int (parse_digits (tl str))
      else int (parse_digits str))"

text \<open>
  Decimal text in the one form \<open>strconv\<close> writes: an optional minus sign, then at
  least one digit, every character a digit, and no leading zero (so \<open>0\<close> is the only
  text that starts with the digit zero, and there is no \<open>-0\<close>).
\<close>

definition canonical_decimal :: "string \<Rightarrow> bool" where
  "canonical_decimal str =
     (let ds = (if str \<noteq> [] \<and> hd str = CHR ''-'' then tl str else str)
      in ds \<noteq> [] \<and> list_all is_digit ds \<and> ((hd ds = CHR ''0'') = (str = ''0'')))"

text \<open>What a transaction operation leaves alone.\<close>

definition same_tx :: "chain \<Rightarrow> chain \<Rightarrow> bool" where
  "same_tx s s' = (client s' = client s \<and> endings s' = endings s \<and> commit_fault s' = commit_fault s
     \<and> (case open_tx s of None \<Rightarrow> False
         | Some tx \<Rightarrow> (case open_tx s' of None \<Rightarrow> False | Some tx' \<Rightarrow> writable tx' = writable tx)))"

section \<open>Decimal text\<close>

lemma digit_val_digit_char: "d < 10 \<Longrightarrow> digit_val (digit_char d) = d"
proof -
  assume "d < 10"
  then have "d \<in> {0, 1, 2, 3, 4, 5, 6, 7, 8, 9}" by auto
  then show ?thesis
    by (auto simp: digit_val_def digit_char_def)
qed

lemma is_digit_digit_char: "d < 10 \<Longrightarrow> is_digit (digit_char d)"
proof -
  assume "d < 10"
  then have "d \<in> {0, 1, 2, 3, 4, 5, 6, 7, 8, 9}" by auto
  then show ?thesis
    by (auto simp: is_digit_def digit_char_def)
qed

lemma parse_digits_snoc: "parse_digits (ds @ [ch]) = 10 * parse_digits ds + digit_val ch"
  by (simp add: parse_digits_def)

lemma parse_digits_digits: "parse_digits (digits n) = n"
proof (induction n rule: digits.induct)
  case (1 n)
  show ?case
  proof (cases "n < 10")
    case True
    then show ?thesis
      by (simp add: digits.simps [of n] parse_digits_def digit_val_digit_char)
  next
    case False
    with 1 have "parse_digits (digits (n div 10)) = n div 10" by simp
    with False show ?thesis
      by (simp add: digits.simps [of n] parse_digits_snoc digit_val_digit_char)
  qed
qed

lemma digits_all_digit: "list_all is_digit (digits n)"
proof (induction n rule: digits.induct)
  case (1 n)
  show ?case
  proof (cases "n < 10")
    case True
    then show ?thesis by (simp add: digits.simps [of n] is_digit_digit_char)
  next
    case False
    with 1 have "list_all is_digit (digits (n div 10))" by simp
    with False show ?thesis
      by (simp add: digits.simps [of n] is_digit_digit_char)
  qed
qed

lemma digits_nonempty: "digits n \<noteq> []"
  by (subst digits.simps) simp

lemma digits_hd_not_sign: "hd (digits n) \<noteq> CHR ''-'' \<and> hd (digits n) \<noteq> CHR ''+''"
proof -
  have "is_digit (hd (digits n))"
    using digits_all_digit [of n] digits_nonempty [of n]
    by (cases "digits n") simp_all
  then show ?thesis by (auto simp: is_digit_def)
qed

lemma Join_snoc: "xs \<noteq> [] \<Longrightarrow> Join (xs @ [y]) sep = Join xs sep @ sep @ y"
  by (induction xs sep rule: Join.induct) auto

lemma NamedKey_snoc: "NamedKey name (keys @ [k]) = NamedKey name keys @ '':'' @ render k"
  using Join_snoc [of "name # map render keys" "render k" "'':''"]
  by (simp add: NamedKey_def)

lemma decimal_value_FormatInt: "decimal_value (FormatInt i) = i"
proof (cases "i < 0")
  case True
  then show ?thesis
    by (simp add: decimal_value_def FormatInt_def parse_digits_digits)
next
  case False
  have "hd (digits (nat i)) \<noteq> CHR ''-''" using digits_hd_not_sign by blast
  with False show ?thesis
    by (simp add: decimal_value_def FormatInt_def parse_digits_digits)
qed

lemma ParseInt_FormatInt: "ParseInt (FormatInt (sint (w :: 64 word))) = Inr w"
proof (cases "sint w < 0")
  case True
  have lo: "- (2 ^ 63) \<le> sint w" using sint_ge [of w] by simp
  have "int (parse_digits (digits (nat (- sint w)))) = - sint w"
    using True by (simp add: parse_digits_digits)
  with True lo show ?thesis
    by (simp add: ParseInt_def FormatInt_def Let_def digits_nonempty digits_all_digit)
next
  case False
  have hi: "sint w < 2 ^ 63" using sint_lt [of w] by simp
  have sign: "hd (digits (nat (sint w))) \<noteq> CHR ''-''" "hd (digits (nat (sint w))) \<noteq> CHR ''+''"
    using digits_hd_not_sign by blast+
  have "int (parse_digits (digits (nat (sint w)))) = sint w"
    using False by (simp add: parse_digits_digits)
  with False hi sign show ?thesis
    by (simp add: ParseInt_def FormatInt_def Let_def digits_nonempty digits_all_digit)
qed

lemma digit_char_zero: "d < 10 \<Longrightarrow> (digit_char d = CHR ''0'') = (d = 0)"
proof -
  assume "d < 10"
  then have "d \<in> {0, 1, 2, 3, 4, 5, 6, 7, 8, 9}" by auto
  then show ?thesis by (auto simp: digit_char_def)
qed

lemma digit_char_digit_val: "is_digit ch \<Longrightarrow> digit_char (digit_val ch) = ch \<and> digit_val ch < 10"
  by (auto simp: is_digit_def digit_char_def digit_val_def)

lemma digit_val_zero: "is_digit ch \<Longrightarrow> (digit_val ch = 0) = (ch = CHR ''0'')"
  by (auto simp: is_digit_def digit_val_def)

lemma digits_zero: "digits 0 = ''0''"
  by (simp add: digits.simps [of 0] digit_char_def)

lemma hd_digits_zero: "(hd (digits n) = CHR ''0'') = (n = 0)"
proof (induction n rule: digits.induct)
  case (1 n)
  show ?case
  proof (cases "n < 10")
    case True
    then show ?thesis by (simp add: digits.simps [of n] digit_char_zero)
  next
    case False
    with 1 have "(hd (digits (n div 10)) = CHR ''0'') = (n div 10 = 0)" by simp
    moreover from False have "n div 10 \<noteq> 0" by simp
    ultimately show ?thesis
      using False digits_nonempty [of "n div 10"] by (simp add: digits.simps [of n])
  qed
qed

lemma digits_eq_zero: "(digits n = ''0'') = (n = 0)"
proof
  assume "digits n = ''0''"
  then have "parse_digits (digits n) = parse_digits ''0''" by simp
  moreover have "parse_digits ''0'' = 0" by (simp add: parse_digits_def digit_val_def)
  ultimately show "n = 0" by (simp add: parse_digits_digits)
next
  assume "n = 0"
  then show "digits n = ''0''" by (simp add: digits_zero)
qed

lemma canonical_decimal_FormatInt: "canonical_decimal (FormatInt i)"
proof (cases "i < 0")
  case True
  then have "nat (- i) \<noteq> 0" by simp
  then have "hd (digits (nat (- i))) \<noteq> CHR ''0''" by (simp add: hd_digits_zero)
  with True show ?thesis
    by (simp add: canonical_decimal_def Let_def FormatInt_def digits_nonempty digits_all_digit)
next
  case False
  have "hd (digits (nat i)) \<noteq> CHR ''-''" using digits_hd_not_sign by blast
  with False show ?thesis
    by (simp add: canonical_decimal_def Let_def FormatInt_def digits_nonempty digits_all_digit
        hd_digits_zero digits_eq_zero)
qed

lemma digits_parse_digits:
  "ds \<noteq> [] \<Longrightarrow> list_all is_digit ds \<Longrightarrow> hd ds \<noteq> CHR ''0'' \<Longrightarrow>
   digits (parse_digits ds) = ds \<and> 0 < parse_digits ds"
proof (induction ds rule: rev_induct)
  case Nil
  then show ?case by simp
next
  case (snoc x xs)
  from snoc.prems have x: "is_digit x" by simp
  then have dx: "digit_char (digit_val x) = x" "digit_val x < 10"
    using digit_char_digit_val by blast+
  show ?case
  proof (cases "xs = []")
    case True
    with snoc.prems have "x \<noteq> CHR ''0''" by simp
    with x have "digit_val x \<noteq> 0" by (simp add: digit_val_zero)
    with True dx show ?thesis
      by (simp add: parse_digits_def digits.simps [of "digit_val x"])
  next
    case False
    with snoc.prems have "list_all is_digit xs" "hd xs \<noteq> CHR ''0''" by simp_all
    with snoc.IH False have ih: "digits (parse_digits xs) = xs" "0 < parse_digits xs" by simp_all
    have "digits (10 * parse_digits xs + digit_val x) = digits (parse_digits xs) @ [digit_char (digit_val x)]"
      using ih(2) dx(2) by (subst digits.simps) simp
    with ih dx show ?thesis by (simp add: parse_digits_snoc)
  qed
qed

lemma FormatInt_decimal_value: "canonical_decimal str \<Longrightarrow> FormatInt (decimal_value str) = str"
proof (cases "str = ''0''")
  case True
  then show ?thesis
    by (simp add: decimal_value_def FormatInt_def parse_digits_def digit_val_def digits_zero)
next
  case False
  assume c: "canonical_decimal str"
  show ?thesis
  proof (cases "str \<noteq> [] \<and> hd str = CHR ''-''")
    case True
    with c False have ds: "tl str \<noteq> []" "list_all is_digit (tl str)" "hd (tl str) \<noteq> CHR ''0''"
      by (simp_all add: canonical_decimal_def Let_def)
    from digits_parse_digits [OF ds]
    have "digits (parse_digits (tl str)) = tl str" "0 < parse_digits (tl str)" by simp_all
    moreover from True have "str = CHR ''-'' # tl str" by (cases str) simp_all
    ultimately show ?thesis using True
      by (simp add: decimal_value_def FormatInt_def)
  next
    case neg: False
    with c False have ds: "str \<noteq> []" "list_all is_digit str" "hd str \<noteq> CHR ''0''"
      by (auto simp: canonical_decimal_def Let_def)
    from digits_parse_digits [OF ds]
    have "digits (parse_digits str) = str" by simp
    moreover from neg ds(1) have "hd str \<noteq> CHR ''-''" by simp
    ultimately show ?thesis
      by (simp add: decimal_value_def FormatInt_def)
  qed
qed

lemma canonical_decimal_unique:
  "canonical_decimal a \<Longrightarrow> canonical_decimal b \<Longrightarrow> decimal_value a = decimal_value b \<Longrightarrow> a = b"
proof -
  assume a: "canonical_decimal a" and b: "canonical_decimal b"
    and v: "decimal_value a = decimal_value b"
  have "a = FormatInt (decimal_value a)" by (rule FormatInt_decimal_value [OF a, symmetric])
  also have "\<dots> = FormatInt (decimal_value b)" by (simp only: v)
  also have "\<dots> = b" by (rule FormatInt_decimal_value [OF b])
  finally show "a = b" .
qed

section \<open>The coordinator, case by case\<close>

lemma RWCoverTx_uninit: "client s = None \<Longrightarrow> RWCoverTx f l s = ((Some ErrNotInitialized, l), s)"
  by (simp add: RWCoverTx_def)

lemma RWCoverTx_nested:
  "client s = Some d \<Longrightarrow> open_tx s = Some tx \<Longrightarrow> writable tx \<Longrightarrow> RWCoverTx f l s = f l s"
  by (simp add: RWCoverTx_def)

lemma RWCoverTx_in_read:
  "client s = Some d \<Longrightarrow> open_tx s = Some tx \<Longrightarrow> \<not> writable tx \<Longrightarrow>
   RWCoverTx f l s = ((Some ErrTxNotWritable, l), s)"
  by (simp add: RWCoverTx_def)

lemma RWCoverTx_outer:
  "client s = Some d \<Longrightarrow> open_tx s = None \<Longrightarrow>
   RWCoverTx f l s =
     (case f l (s\<lparr>open_tx := Some \<lparr>writable = True, items = d\<rparr>\<rparr>) of
        ((Some e, l'), s') \<Rightarrow> ((Some e, l'), rollback s')
      | ((None, l'), s') \<Rightarrow> (case commit s' of (r, s'') \<Rightarrow> ((r, l'), s'')))"
  by (simp add: RWCoverTx_def)

lemma RCoverTx_uninit: "client s = None \<Longrightarrow> RCoverTx f l s = ((Some ErrNotInitialized, l), s)"
  by (simp add: RCoverTx_def)

lemma RCoverTx_nested:
  "client s = Some d \<Longrightarrow> open_tx s = Some tx \<Longrightarrow> RCoverTx f l s = f l s"
  by (simp add: RCoverTx_def)

lemma RCoverTx_outer:
  "client s = Some d \<Longrightarrow> open_tx s = None \<Longrightarrow>
   RCoverTx f l s =
     (case f l (s\<lparr>open_tx := Some \<lparr>writable = False, items = d\<rparr>\<rparr>) of
        (r, s') \<Rightarrow> (r, s'\<lparr>open_tx := None\<rparr>))"
  by (simp add: RCoverTx_def)

lemma same_tx_refl: "open_tx s = Some tx \<Longrightarrow> same_tx s s"
  by (simp add: same_tx_def)

lemma same_tx_trans: "same_tx s s' \<Longrightarrow> same_tx s' s'' \<Longrightarrow> same_tx s s''"
  by (auto simp: same_tx_def split: option.splits)

lemma tx_Set_same: "open_tx s = Some tx \<Longrightarrow> same_tx s (snd (tx_Set key v opts s))"
  by (simp add: tx_Set_def same_tx_def Let_def)

lemma tx_Get_same: "open_tx s = Some tx \<Longrightarrow> same_tx s (snd (tx_Get key s))"
  by (simp add: tx_Get_def same_tx_def split: option.splits)

lemma tx_Delete_same: "open_tx s = Some tx \<Longrightarrow> same_tx s (snd (tx_Delete key s))"
  by (simp add: tx_Delete_def same_tx_def split: option.splits)

lemma same_tx_open: "same_tx s s' \<Longrightarrow> \<exists>tx'. open_tx s' = Some tx'"
  by (auto simp: same_tx_def split: option.splits)

lemma run_same_tx: "open_tx s = Some tx \<Longrightarrow> same_tx s (snd (run body l s))"
proof (induction body arbitrary: l s tx)
  case (TxSet key v opts)
  then show ?case using tx_Set_same [of s tx key v opts] by (auto split: prod.splits)
next
  case (TxGet key)
  then show ?case using tx_Get_same [of s tx key] by (auto split: prod.splits)
next
  case (TxDelete key)
  then show ?case using tx_Delete_same [of s tx key] by (auto split: prod.splits)
next
  case (Return e)
  then show ?case by (simp add: same_tx_refl)
next
  case (Then a b)
  obtain ea la sa where ra: "run a l s = ((ea, la), sa)" by (metis prod.exhaust)
  from Then.IH(1) [OF Then.prems, of l] ra have sa: "same_tx s sa" by simp
  show ?case
  proof (cases ea)
    case None
    from same_tx_open [OF sa] obtain txa where "open_tx sa = Some txa" by blast
    from Then.IH(2) [OF this, of la] have "same_tx sa (snd (run b la sa))" .
    with sa have "same_tx s (snd (run b la sa))" by (rule same_tx_trans)
    with ra None show ?thesis by simp
  next
    case (Some e)
    with ra sa show ?thesis by simp
  qed
next
  case (Ignore a b)
  obtain ea la sa where ra: "run a l s = ((ea, la), sa)" by (metis prod.exhaust)
  from Ignore.IH(1) [OF Ignore.prems, of l] ra have sa: "same_tx s sa" by simp
  from same_tx_open [OF sa] obtain txa where "open_tx sa = Some txa" by blast
  from Ignore.IH(2) [OF this, of la] have "same_tx sa (snd (run b la sa))" .
  with sa have "same_tx s (snd (run b la sa))" by (rule same_tx_trans)
  with ra show ?case by simp
next
  case (NestedRW a)
  show ?case
  proof (cases "client s")
    case None
    with NestedRW.prems show ?thesis by (simp add: RWCoverTx_uninit same_tx_refl)
  next
    case (Some d)
    show ?thesis
    proof (cases "writable tx")
      case True
      with Some NestedRW.prems NestedRW.IH [OF NestedRW.prems, of l] show ?thesis
        by (simp add: RWCoverTx_nested)
    next
      case False
      with Some NestedRW.prems show ?thesis by (simp add: RWCoverTx_in_read same_tx_refl)
    qed
  qed
next
  case (NestedR a)
  show ?case
  proof (cases "client s")
    case None
    with NestedR.prems show ?thesis by (simp add: RCoverTx_uninit same_tx_refl)
  next
    case (Some d)
    with NestedR.prems NestedR.IH [OF NestedR.prems, of l] show ?thesis
      by (simp add: RCoverTx_nested)
  qed
qed

lemma nested_returns_reaches_top:
  "propagating body \<Longrightarrow> open_tx s = Some tx \<Longrightarrow> nested_returns body s err \<Longrightarrow>
   fst (fst (run body () s)) = Some err"
proof (induction body arbitrary: s tx)
  case (Then a b)
  obtain ea sa where ra: "run a () s = ((ea, ()), sa)" by (cases "run a () s") auto
  from Then.prems(1) have pa: "propagating a" and pb: "propagating b" by simp_all
  from Then.prems(3) consider (first) "nested_returns a s err"
    | (second) "ea = None" "nested_returns b sa err"
    using ra by auto
  then show ?case
  proof cases
    case first
    from Then.IH(1) [OF pa Then.prems(2) first] ra have "ea = Some err" by simp
    with ra show ?thesis by simp
  next
    case second
    have "same_tx s sa" using run_same_tx [OF Then.prems(2), of a "()"] ra by simp
    then obtain txa where "open_tx sa = Some txa" using same_tx_open by blast
    from Then.IH(2) [OF pb this second(2)] ra second(1) show ?thesis by simp
  qed
next
  case (NestedRW a)
  from NestedRW.prems(3) obtain d where d: "client s = Some d"
    by (auto split: option.splits)
  with NestedRW.prems have w: "writable tx"
    and r: "fst (fst (run a () s)) = Some err \<or> nested_returns a s err"
    by simp_all
  from NestedRW.prems(1) have pa: "propagating a" by simp
  from r NestedRW.IH [OF pa NestedRW.prems(2)] have "fst (fst (run a () s)) = Some err" by blast
  with d w NestedRW.prems(2) show ?case by (simp add: RWCoverTx_nested)
next
  case (NestedR a)
  from NestedR.prems(3) obtain d where d: "client s = Some d"
    by (auto split: option.splits)
  with NestedR.prems have r: "fst (fst (run a () s)) = Some err \<or> nested_returns a s err"
    by simp
  from NestedR.prems(1) have pa: "propagating a" by simp
  from r NestedR.IH [OF pa NestedR.prems(2)] have "fst (fst (run a () s)) = Some err" by blast
  with d NestedR.prems(2) show ?case by (simp add: RCoverTx_nested)
qed simp_all

lemma run_Then_error: "fst (fst (run a l t)) = Some err \<Longrightarrow> run (Then a b) l t = run a l t"
  by (cases "run a l t") (auto split: prod.splits option.splits)

lemma chain_eqI:
  "client s' = client s \<Longrightarrow> open_tx s' = open_tx s \<Longrightarrow> commit_fault s' = commit_fault s \<Longrightarrow>
   endings s' = endings s \<Longrightarrow> s' = (s :: chain)"
  by simp

lemmas evals = RWCoverTx_def RCoverTx_def tx_Set_def tx_Get_def tx_Delete_def rollback_def
  commit_def fresh_def lookup_def Let_def

lemma tx_Set_writable:
  "open_tx s = Some tx \<Longrightarrow> writable tx \<Longrightarrow>
   tx_Set key v opts s =
     (((case items tx key of None \<Rightarrow> [] | Some prev \<Rightarrow> val prev), items tx key \<noteq> None, None),
      s\<lparr>open_tx := Some (tx\<lparr>items := (items tx)(key \<mapsto>
          \<lparr>val = v, ttl = (case opts of None \<Rightarrow> None
                           | Some opt \<Rightarrow> if Expires opt then Some (TTL opt) else None)\<rparr>)\<rparr>)\<rparr>)"
  by (simp add: tx_Set_def Let_def)

lemma tx_Delete_writable:
  "open_tx s = Some tx \<Longrightarrow> writable tx \<Longrightarrow>
   tx_Delete key s =
     (((case items tx key of None \<Rightarrow> [] | Some item \<Rightarrow> val item),
       (if items tx key = None then Some ErrNotFound else None)),
      s\<lparr>open_tx := Some (tx\<lparr>items := (items tx)(key := None)\<rparr>)\<rparr>)"
proof (cases "items tx key")
  case None
  assume a: "open_tx s = Some tx" "writable tx"
  from None have "(items tx)(key := None) = items tx" by (simp add: fun_upd_idem)
  then have "s\<lparr>open_tx := Some (tx\<lparr>items := (items tx)(key := None)\<rparr>)\<rparr> = s"
    using a by simp
  with None a show ?thesis by (simp add: tx_Delete_def)
next
  case (Some item)
  assume "open_tx s = Some tx" "writable tx"
  with Some show ?thesis by (simp add: tx_Delete_def)
qed

lemma tx_Delete_upd:
  "writable tx \<Longrightarrow>
   tx_Delete key (s\<lparr>open_tx := Some tx\<rparr>) =
     (((case items tx key of None \<Rightarrow> [] | Some item \<Rightarrow> val item),
       (case items tx key of None \<Rightarrow> Some ErrNotFound | Some item \<Rightarrow> None)),
      s\<lparr>open_tx := Some (tx\<lparr>items := (items tx)(key := None)\<rparr>)\<rparr>)"
  using tx_Delete_writable [of "s\<lparr>open_tx := Some tx\<rparr>" tx key]
  by (simp split: option.splits)

lemma tx_Set_upd:
  "writable tx \<Longrightarrow>
   tx_Set key v opts (s\<lparr>open_tx := Some tx\<rparr>) =
     (((case items tx key of None \<Rightarrow> [] | Some prev \<Rightarrow> val prev), items tx key \<noteq> None, None),
      s\<lparr>open_tx := Some (tx\<lparr>items := (items tx)(key \<mapsto>
          \<lparr>val = v, ttl = (case opts of None \<Rightarrow> None
                           | Some opt \<Rightarrow> if Expires opt then Some (TTL opt) else None)\<rparr>)\<rparr>)\<rparr>)"
  using tx_Set_writable [of "s\<lparr>open_tx := Some tx\<rparr>" tx key v opts] by simp

lemma first_failure_None:
  "(first_failure errs = None) = list_all (\<lambda>e. e = None \<or> e = Some ErrNotFound) errs"
  by (induction errs) auto

lemma first_failure_Some:
  "first_failure errs = Some e \<Longrightarrow> e \<noteq> ErrNotFound \<and> Some e \<in> set errs"
  by (induction errs) (auto split: if_splits)

lemma first_failure_tolerated:
  "list_all (\<lambda>e. e = None \<or> e = Some ErrNotFound) errs \<Longrightarrow> first_failure errs = None"
  by (simp add: first_failure_None)

lemma delete_error_tolerated:
  "(case x of None \<Rightarrow> Some ErrNotFound | Some item \<Rightarrow> None) = None
   \<or> (case x of None \<Rightarrow> Some ErrNotFound | Some item \<Rightarrow> None) = Some ErrNotFound"
  by (cases x) simp_all

lemma ClearByMid_outer:
  assumes "client s = Some d" and "open_tx s = None" and "commit_fault s = None"
  shows "ClearByMid c mid s =
    (None, s\<lparr>client := Some (d(CurrentLiveKey c [SInt64 mid] := None, CurrentNewsKey c [SInt64 mid] := None,
        UidFirstTimestamp c [SInt64 mid] := None, UserInfoKey c [SInt64 mid] := None,
        NotLiveKey c [SInt64 mid] := None)), endings := endings s @ [Commit]\<rparr>)"
  using assms
  by (simp add: ClearByMid_def RWCoverTx_outer tx_Delete_upd first_failure_tolerated
      delete_error_tolerated commit_def Let_def del: first_failure.simps)

lemma ClearByMid_never_NotFound:
  assumes "commit_fault s \<noteq> Some ErrNotFound"
  shows "fst (ClearByMid c mid s) \<noteq> Some ErrNotFound"
proof (cases "client s")
  case None
  then show ?thesis by (simp add: ClearByMid_def RWCoverTx_uninit)
next
  case (Some d)
  show ?thesis
  proof (cases "open_tx s")
    case None
    have "fst (ClearByMid c mid s) = commit_fault s"
      using Some None
      by (simp add: ClearByMid_def RWCoverTx_outer tx_Delete_upd first_failure_tolerated
          delete_error_tolerated commit_def Let_def split: option.splits del: first_failure.simps)
    with assms show ?thesis by simp
  next
    case tx: (Some tx)
    show ?thesis
    proof (cases "writable tx")
      case True
      have s: "s\<lparr>open_tx := Some tx\<rparr> = s" using tx by simp
      have "fst (ClearByMid c mid (s\<lparr>open_tx := Some tx\<rparr>)) = None"
        using Some True
        by (simp add: ClearByMid_def RWCoverTx_nested [of _ d tx] tx_Delete_upd first_failure_tolerated
          delete_error_tolerated Let_def del: first_failure.simps)
      with s show ?thesis by simp
    next
      case False
      with Some tx show ?thesis by (simp add: ClearByMid_def RWCoverTx_in_read)
    qed
  qed
qed

lemma DeleteNewsAndLiveInfo_outer:
  assumes "client s = Some d" and "open_tx s = None" and "commit_fault s = None"
    and "CurrentLiveKey c [SInt64 mid] \<noteq> CurrentNewsKey c [SInt64 mid]"
    and "d (CurrentNewsKey c [SInt64 mid]) \<noteq> None"
  shows "DeleteNewsAndLiveInfo c mid s =
    (None, s\<lparr>client := Some (d(CurrentLiveKey c [SInt64 mid] := None, CurrentNewsKey c [SInt64 mid] := None)),
             endings := endings s @ [Commit]\<rparr>)"
proof -
  have live: "(case d (CurrentLiveKey c [SInt64 mid]) of None \<Rightarrow> Some ErrNotFound | Some item \<Rightarrow> None) = None
      \<or> (case d (CurrentLiveKey c [SInt64 mid]) of None \<Rightarrow> Some ErrNotFound | Some item \<Rightarrow> None) = Some ErrNotFound"
    by (rule delete_error_tolerated)
  from assms(5) obtain item where "d (CurrentNewsKey c [SInt64 mid]) = Some item" by blast
  with assms(1-4) live show ?thesis
    by (auto simp: DeleteNewsAndLiveInfo_def RWCoverTx_outer tx_Delete_upd commit_def)
qed

lemma DeleteLiveInfo_outer:
  assumes "client s = Some d" and "open_tx s = None" and "commit_fault s = None"
  shows "DeleteLiveInfo c mid s =
    (if d (CurrentLiveKey c [SInt64 mid]) = None
     then (Some ErrNotFound, s\<lparr>endings := endings s @ [Rollback]\<rparr>)
     else (None, s\<lparr>client := Some (d(CurrentLiveKey c [SInt64 mid] := None)),
                   endings := endings s @ [Commit]\<rparr>))"
  using assms
  by (auto simp: DeleteLiveInfo_def RWCoverTx_outer tx_Delete_upd commit_def rollback_def fun_upd_idem)

lemma DeleteNewsInfo_outer:
  assumes "client s = Some d" and "open_tx s = None" and "commit_fault s = None"
  shows "DeleteNewsInfo c mid s =
    (if d (CurrentNewsKey c [SInt64 mid]) = None
     then (Some ErrNotFound, s\<lparr>endings := endings s @ [Rollback]\<rparr>)
     else (None, s\<lparr>client := Some (d(CurrentNewsKey c [SInt64 mid] := None)),
                   endings := endings s @ [Commit]\<rparr>))"
  using assms
  by (auto simp: DeleteNewsInfo_def RWCoverTx_outer tx_Delete_upd commit_def rollback_def fun_upd_idem)

text \<open>
  \<open>DeleteNewsAndLiveInfo\<close> returns the error of its second delete as it is: with the
  news record absent it returns \<open>ErrNotFound\<close>, although it lets the same error of
  its first delete pass.
\<close>

lemma DeleteNewsAndLiveInfo_absent_news:
  "DeleteNewsAndLiveInfo c mid (fresh\<lparr>client := Some Map.empty\<rparr>)
     = (Some ErrNotFound, fresh\<lparr>client := Some Map.empty, endings := [Rollback]\<rparr>)"
  by (simp add: DeleteNewsAndLiveInfo_def RWCoverTx_def tx_Delete_def rollback_def fresh_def)

lemma NamedKey_42: "NamedKey name [SInt64 42] = name @ '':42''"
  by (simp add: NamedKey_def FormatInt_def digits.simps [of 42] digits.simps [of 4] digit_char_def)

lemma AddLiveInfo_cases:
  "AddLiveInfo c (Some li) s =
    (case client s of
       None \<Rightarrow> (Some ErrNotInitialized, s)
     | Some d \<Rightarrow>
        (case open_tx s of
           Some tx \<Rightarrow>
             if writable tx
             then (None, s\<lparr>open_tx := Some (tx\<lparr>items := (items tx)
                     (UserInfoKey c [SInt64 (Mid (LiveInfo_UserInfo li))] \<mapsto>
                        \<lparr>val = UserInfo_ToString (LiveInfo_UserInfo li), ttl = None\<rparr>,
                      CurrentLiveKey c [SInt64 (Mid (LiveInfo_UserInfo li))] \<mapsto>
                        \<lparr>val = LiveInfo_ToString li, ttl = Some 604800000000000\<rparr>)\<rparr>)\<rparr>)
             else (Some ErrTxNotWritable, s)
         | None \<Rightarrow>
            (case commit_fault s of
               Some e \<Rightarrow> (Some e, s\<lparr>endings := endings s @ [Rollback]\<rparr>)
             | None \<Rightarrow> (None, s\<lparr>client := Some (d
                     (UserInfoKey c [SInt64 (Mid (LiveInfo_UserInfo li))] \<mapsto>
                        \<lparr>val = UserInfo_ToString (LiveInfo_UserInfo li), ttl = None\<rparr>,
                      CurrentLiveKey c [SInt64 (Mid (LiveInfo_UserInfo li))] \<mapsto>
                        \<lparr>val = LiveInfo_ToString li, ttl = Some 604800000000000\<rparr>)),
                   endings := endings s @ [Commit]\<rparr>))))"
proof (cases "client s")
  case None
  then show ?thesis by (simp add: AddLiveInfo_def RWCoverTx_uninit)
next
  case (Some d)
  show ?thesis
  proof (cases "open_tx s")
    case None
    with Some show ?thesis
      by (simp add: AddLiveInfo_def RWCoverTx_outer tx_Set_upd ExpireOption_def Hour_def commit_def rollback_def
          split: option.splits)
  next
    case tx: (Some tx)
    show ?thesis
    proof (cases "writable tx")
      case True
      have s: "s\<lparr>open_tx := Some tx\<rparr> = s" using tx by simp
      have "AddLiveInfo c (Some li) (s\<lparr>open_tx := Some tx\<rparr>) =
         (None, s\<lparr>open_tx := Some (tx\<lparr>items := (items tx)
                     (UserInfoKey c [SInt64 (Mid (LiveInfo_UserInfo li))] \<mapsto>
                        \<lparr>val = UserInfo_ToString (LiveInfo_UserInfo li), ttl = None\<rparr>,
                      CurrentLiveKey c [SInt64 (Mid (LiveInfo_UserInfo li))] \<mapsto>
                        \<lparr>val = LiveInfo_ToString li, ttl = Some 604800000000000\<rparr>)\<rparr>)\<rparr>)"
        using Some True
        by (simp add: AddLiveInfo_def RWCoverTx_nested [of _ d tx] tx_Set_upd ExpireOption_def Hour_def)
      then have "AddLiveInfo c (Some li) s =
         (None, s\<lparr>open_tx := Some (tx\<lparr>items := (items tx)
                     (UserInfoKey c [SInt64 (Mid (LiveInfo_UserInfo li))] \<mapsto>
                        \<lparr>val = UserInfo_ToString (LiveInfo_UserInfo li), ttl = None\<rparr>,
                      CurrentLiveKey c [SInt64 (Mid (LiveInfo_UserInfo li))] \<mapsto>
                        \<lparr>val = LiveInfo_ToString li, ttl = Some 604800000000000\<rparr>)\<rparr>)\<rparr>)"
        unfolding s .
      with Some tx True show ?thesis by simp
    next
      case False
      with Some tx show ?thesis by (simp add: AddLiveInfo_def RWCoverTx_in_read)
    qed
  qed
qed

lemma CheckDynamicId_cases:
  "CheckDynamicId c dynamic s =
     ((client s \<noteq> None \<and> lookup s (DynamicIdKey c [SInt64 dynamic]) = None), s)"
proof (cases "client s")
  case None
  then show ?thesis by (simp add: CheckDynamicId_def RCoverTx_uninit)
next
  case (Some d)
  show ?thesis
  proof (cases "open_tx s")
    case None
    then have s: "s\<lparr>open_tx := None\<rparr> = s" by simp
    from Some None show ?thesis
      by (simp add: CheckDynamicId_def RCoverTx_outer tx_Get_def lookup_def s split: option.splits)
  next
    case tx: (Some tx)
    with Some show ?thesis
      by (simp add: CheckDynamicId_def RCoverTx_nested [of _ d tx] tx_Get_def lookup_def
          split: option.splits)
  qed
qed

lemma ParseInt_zero: "ParseInt ''0'' = Inr 0"
  by (simp add: ParseInt_def is_digit_def parse_digits_def digit_val_def)

lemma FormatInt_one: "FormatInt (sint (0 + 1 :: 64 word)) = ''1''"
  by (simp add: FormatInt_def digits.simps [of "Suc 0"] digit_char_def)

lemma SeqNext_uninit: "client s = None \<Longrightarrow> SeqNext key s = ((0, Some ErrNotInitialized), s)"
  by (simp add: SeqNext_def RWCoverTx_uninit)

lemma SeqNext_in_read:
  "client s = Some d \<Longrightarrow> open_tx s = Some tx \<Longrightarrow> \<not> writable tx \<Longrightarrow>
   SeqNext key s = ((0, Some ErrTxNotWritable), s)"
  by (simp add: SeqNext_def RWCoverTx_in_read)

lemma SeqNext_absent:
  assumes "client s = Some d" and "open_tx s = None" and "d key = None"
  shows "SeqNext key s =
    (case commit_fault s of
       None \<Rightarrow> ((1, None), s\<lparr>client := Some (d(key \<mapsto> \<lparr>val = ''1'', ttl = None\<rparr>)),
                              endings := endings s @ [Commit]\<rparr>)
     | Some e \<Rightarrow> ((1, Some e), s\<lparr>endings := endings s @ [Rollback]\<rparr>))"
  using assms FormatInt_one
  by (simp add: SeqNext_def RWCoverTx_outer tx_Get_def tx_Set_upd ParseInt_zero commit_def rollback_def
      split: option.splits)

lemma SeqNext_present:
  assumes "client s = Some d" and "open_tx s = None" and "d key = Some item"
    and "val item = FormatInt (sint n)"
  shows "SeqNext key s =
    (case commit_fault s of
       None \<Rightarrow> ((n + 1, None), s\<lparr>client := Some (d(key \<mapsto> \<lparr>val = FormatInt (sint (n + 1)), ttl = None\<rparr>)),
                              endings := endings s @ [Commit]\<rparr>)
     | Some e \<Rightarrow> ((n + 1, Some e), s\<lparr>endings := endings s @ [Rollback]\<rparr>))"
  using assms
  by (simp add: SeqNext_def RWCoverTx_outer tx_Get_def tx_Set_upd ParseInt_FormatInt commit_def
      rollback_def split: option.splits)

section \<open>Properties\<close>

subsection \<open>Nil arguments\<close>

text \<open>
  C9.  Given a nil pointer, each of \<open>AddUserInfo\<close>, \<open>AddUserStat\<close>, \<open>AddLiveInfo\<close>,
  \<open>AddNewsInfo\<close> and \<open>SetCookieInfo\<close> returns its non-nil error at once and leaves
  the chain exactly as it was: no transaction is opened or ended, and no key is
  touched.
\<close>

theorem nil_argument_rejected:
  "AddUserInfo c None s = (Some (ErrNew ''nil UserInfo''), s)
   \<and> AddUserStat c None opt s = (Some (ErrNew ''nil UserStat''), s)
   \<and> AddLiveInfo c None s = (Some (ErrNew ''nil LiveInfo''), s)
   \<and> AddNewsInfo c None s = (Some (ErrNew ''nil NewsInfo''), s)
   \<and> SetCookieInfo cookieKey Marshal now username None s = (Some (ErrNew ''<nil> cookieInfo''), s)"
  by (simp add: AddUserInfo_def AddUserStat_def AddLiveInfo_def AddNewsInfo_def SetCookieInfo_def)

subsection \<open>Nested read-write calls\<close>

text \<open>
  C1.  On a chain with the engine ready and no transaction open, a call of
  \<open>RWCoverTx\<close> whose callback nests further cover calls to any depth ends the
  transaction exactly once, and leaves none open: the engine's record of endings
  grows by one entry.  A nested \<open>RWCoverTx\<close> in an open read-write transaction is
  the callback itself, so it neither commits nor rolls back, and its error reaches
  the enclosing callback unchanged; a callback that returns the error of a
  statement at once (\<open>Then\<close>) passes it on.  So for propagating callbacks: if the
  callback of a cover call nested at any depth returns an error, \<open>ErrRollback\<close>
  included, or the outermost callback itself does, the outermost \<open>RWCoverTx\<close>
  returns exactly that error and the chain is what it was before the call, but for
  the recorded rollback: every write made at any depth is discarded.  If the
  outermost callback returns nil and persistence does not fail, the items of the
  transaction become the store, with one commit.
\<close>

theorem outermost_RWCoverTx_ends_once:
  assumes "client s = Some d" and "open_tx s = None"
  shows "(\<exists>e. endings (snd (RWCoverTx (run body) () s)) = endings s @ [e])
    \<and> open_tx (snd (RWCoverTx (run body) () s)) = None
    \<and> (fst (fst (run body () (s\<lparr>open_tx := Some \<lparr>writable = True, items = d\<rparr>\<rparr>))) = Some err \<longrightarrow>
         RWCoverTx (run body) () s = ((Some err, ()), s\<lparr>endings := endings s @ [Rollback]\<rparr>))
    \<and> (fst (fst (run body () (s\<lparr>open_tx := Some \<lparr>writable = True, items = d\<rparr>\<rparr>))) = None
         \<and> commit_fault s = None \<longrightarrow>
         fst (RWCoverTx (run body) () s) = (None, ())
         \<and> endings (snd (RWCoverTx (run body) () s)) = endings s @ [Commit]
         \<and> client (snd (RWCoverTx (run body) () s))
             = map_option items (open_tx (snd (run body () (s\<lparr>open_tx := Some \<lparr>writable = True, items = d\<rparr>\<rparr>)))))
    \<and> (client t = Some d' \<and> open_tx t = Some tx \<and> writable tx \<longrightarrow> RWCoverTx f l t = f l t)
    \<and> (fst (fst (run a l t)) = Some err \<longrightarrow> run (Then a b) l t = run a l t)
    \<and> (propagating body
         \<and> nested_returns body (s\<lparr>open_tx := Some \<lparr>writable = True, items = d\<rparr>\<rparr>) err \<longrightarrow>
         RWCoverTx (run body) () s = ((Some err, ()), s\<lparr>endings := endings s @ [Rollback]\<rparr>))"
proof -
  let ?s0 = "s\<lparr>open_tx := Some \<lparr>writable = True, items = d\<rparr>\<rparr>"
  obtain r s1 where body: "run body () ?s0 = ((r, ()), s1)"
    by (cases "run body () ?s0") auto
  have "same_tx ?s0 s1"
    using run_same_tx [of ?s0 "\<lparr>writable = True, items = d\<rparr>" body "()"] body by simp
  then have s1: "client s1 = client s" "endings s1 = endings s" "commit_fault s1 = commit_fault s"
    and "\<exists>tx1. open_tx s1 = Some tx1"
    by (auto simp: same_tx_def split: option.splits)
  then obtain tx1 where tx1: "open_tx s1 = Some tx1" by blast
  have outer: "RWCoverTx (run body) () s =
      (case r of Some e \<Rightarrow> ((Some e, ()), rollback s1)
       | None \<Rightarrow> (case commit s1 of (r', s2) \<Rightarrow> ((r', ()), s2)))"
    using assms body by (simp add: RWCoverTx_outer split: option.splits)
  have once: "\<exists>e. endings (snd (RWCoverTx (run body) () s)) = endings s @ [e]"
    using s1 by (auto simp: outer rollback_def commit_def split: option.splits)
  have closed: "open_tx (snd (RWCoverTx (run body) () s)) = None"
    by (auto simp: outer rollback_def commit_def split: option.splits)
  have discard: "RWCoverTx (run body) () s = ((Some err, ()), s\<lparr>endings := endings s @ [Rollback]\<rparr>)"
    if "fst (fst (run body () ?s0)) = Some err"
  proof -
    from that body have r: "r = Some err" by simp
    have "rollback s1 = s\<lparr>endings := endings s @ [Rollback]\<rparr>"
      using s1 assms by (intro chain_eqI) (simp_all add: rollback_def)
    with r show ?thesis by (simp add: outer)
  qed
  have keep: "fst (RWCoverTx (run body) () s) = (None, ())
      \<and> endings (snd (RWCoverTx (run body) () s)) = endings s @ [Commit]
      \<and> client (snd (RWCoverTx (run body) () s)) = map_option items (open_tx (snd (run body () ?s0)))"
    if "fst (fst (run body () ?s0)) = None" and "commit_fault s = None"
    using that body s1 tx1 by (simp add: outer commit_def)
  have nested: "RWCoverTx f l t = f l t" if "client t = Some d'" "open_tx t = Some tx" "writable tx"
    using that by (rule RWCoverTx_nested)
  have deep: "RWCoverTx (run body) () s = ((Some err, ()), s\<lparr>endings := endings s @ [Rollback]\<rparr>)"
    if "propagating body" "nested_returns body ?s0 err"
  proof -
    have "open_tx ?s0 = Some \<lparr>writable = True, items = d\<rparr>" by simp
    from nested_returns_reaches_top [OF that(1) this that(2)] show ?thesis by (rule discard)
  qed
  show ?thesis
    using once closed discard keep nested deep run_Then_error [of a l t err b] by blast
qed

theorem outermost_RWCoverTx_ends_once_witness:
  "RWCoverTx (run (Then (TxSet ''d'' ''e'' None)
       (NestedRW (Then (TxSet ''a'' ''b'' None) (Return (Some ErrRollback)))))) ()
     (fresh\<lparr>client := Some Map.empty\<rparr>)
   = ((Some ErrRollback, ()), fresh\<lparr>client := Some Map.empty, endings := [Rollback]\<rparr>)
   \<and> propagating (Then (TxSet ''d'' ''e'' None)
       (NestedRW (Then (TxSet ''a'' ''b'' None) (Return (Some ErrRollback)))))
   \<and> nested_returns (Then (TxSet ''d'' ''e'' None)
       (NestedRW (Then (TxSet ''a'' ''b'' None) (Return (Some ErrRollback)))))
       (fresh\<lparr>client := Some Map.empty, open_tx := Some \<lparr>writable = True, items = Map.empty\<rparr>\<rparr>) ErrRollback
   \<and> fst (RWCoverTx (run (Then (TxSet ''d'' ''e'' None) (Then (NestedRW (TxSet ''b'' ''c'' None))
            (Then (NestedRW (TxSet ''a'' ''b'' None)) (NestedR (TxGet ''b'')))))) ()
          (fresh\<lparr>client := Some Map.empty\<rparr>)) = (None, ())
   \<and> endings (snd (RWCoverTx (run (Then (TxSet ''d'' ''e'' None) (Then (NestedRW (TxSet ''b'' ''c'' None))
            (Then (NestedRW (TxSet ''a'' ''b'' None)) (NestedR (TxGet ''b'')))))) ()
          (fresh\<lparr>client := Some Map.empty\<rparr>))) = [Commit]
   \<and> client (snd (RWCoverTx (run (Then (TxSet ''d'' ''e'' None) (Then (NestedRW (TxSet ''b'' ''c'' None))
            (Then (NestedRW (TxSet ''a'' ''b'' None)) (NestedR (TxGet ''b'')))))) ()
          (fresh\<lparr>client := Some Map.empty\<rparr>)))
       = Some [''d'' \<mapsto> \<lparr>val = ''e'', ttl = None\<rparr>, ''b'' \<mapsto> \<lparr>val = ''c'', ttl = None\<rparr>,
               ''a'' \<mapsto> \<lparr>val = ''b'', ttl = None\<rparr>]
   \<and> RWCoverTx (run (Return (Some ErrRollback))) ()
        (fresh\<lparr>client := Some Map.empty,
               open_tx := Some \<lparr>writable = True, items = [''a'' \<mapsto> \<lparr>val = ''b'', ttl = None\<rparr>]\<rparr>\<rparr>)
       = ((Some ErrRollback, ()),
          fresh\<lparr>client := Some Map.empty,
                open_tx := Some \<lparr>writable = True, items = [''a'' \<mapsto> \<lparr>val = ''b'', ttl = None\<rparr>]\<rparr>\<rparr>)"
  using outermost_RWCoverTx_ends_once [of "fresh\<lparr>client := Some Map.empty\<rparr>" Map.empty
      "Then (TxSet ''d'' ''e'' None) (NestedRW (Then (TxSet ''a'' ''b'' None) (Return (Some ErrRollback))))"
      ErrRollback
      "fresh\<lparr>client := Some Map.empty,
               open_tx := Some \<lparr>writable = True, items = [''a'' \<mapsto> \<lparr>val = ''b'', ttl = None\<rparr>]\<rparr>\<rparr>"
      Map.empty "\<lparr>writable = True, items = [''a'' \<mapsto> \<lparr>val = ''b'', ttl = None\<rparr>]\<rparr>"
      "run (Return (Some ErrRollback))" "()" "Return (Some ErrRollback)" "TxSet ''c'' ''d'' None"]
    outermost_RWCoverTx_ends_once [of "fresh\<lparr>client := Some Map.empty\<rparr>" Map.empty
      "Then (TxSet ''d'' ''e'' None) (Then (NestedRW (TxSet ''b'' ''c'' None))
            (Then (NestedRW (TxSet ''a'' ''b'' None)) (NestedR (TxGet ''b''))))"
      ErrRollback]
  by (simp add: evals)

subsection \<open>Writes under a read-only transaction\<close>

text \<open>
  C2.  While a read-only transaction is open on the chain, a nested \<open>RWCoverTx\<close>
  returns \<open>ErrTxNotWritable\<close> without running its callback, and \<open>tx.Set\<close> on the
  handle returns \<open>ErrTxNotWritable\<close>; either way the chain is unchanged.  Seen from
  outside: \<open>RCoverTx\<close> around either attempt returns \<open>ErrTxNotWritable\<close> and leaves
  the chain as it was, so the key reads as it did in the store (absent if it was
  absent).
\<close>

theorem read_chain_refuses_writes:
  assumes "client s = Some d"
  shows "(open_tx s = Some tx \<and> \<not> writable tx \<longrightarrow>
            RWCoverTx f l s = ((Some ErrTxNotWritable, l), s)
          \<and> tx_Set key v opts s = (([], False, Some ErrTxNotWritable), s))
    \<and> (open_tx s = None \<longrightarrow>
            RCoverTx (RWCoverTx f) l s = ((Some ErrTxNotWritable, l), s)
          \<and> RCoverTx (run (TxSet key v opts)) () s = ((Some ErrTxNotWritable, ()), s)
          \<and> lookup (snd (RCoverTx (RWCoverTx f) l s)) key = d key
          \<and> lookup (snd (RCoverTx (run (TxSet key v opts)) () s)) key = d key)"
proof -
  have inside: "RWCoverTx f l s = ((Some ErrTxNotWritable, l), s)
      \<and> tx_Set key v opts s = (([], False, Some ErrTxNotWritable), s)"
    if "open_tx s = Some tx" "\<not> writable tx"
    using that assms by (simp add: RWCoverTx_in_read tx_Set_def)
  have outside: "RCoverTx (RWCoverTx f) l s = ((Some ErrTxNotWritable, l), s)
      \<and> RCoverTx (run (TxSet key v opts)) () s = ((Some ErrTxNotWritable, ()), s)"
    if "open_tx s = None"
    using that assms by (simp add: RCoverTx_outer RWCoverTx_def tx_Set_def)
  have "lookup s key = d key" if "open_tx s = None"
    using that assms by (simp add: lookup_def)
  with inside outside show ?thesis by simp
qed

theorem read_chain_refuses_writes_witness:
  "RWCoverTx (run (TxSet ''c'' ''d'' None)) ()
      (fresh\<lparr>client := Some [''b'' \<mapsto> \<lparr>val = ''c'', ttl = None\<rparr>],
             open_tx := Some \<lparr>writable = False, items = [''b'' \<mapsto> \<lparr>val = ''c'', ttl = None\<rparr>]\<rparr>\<rparr>)
    = ((Some ErrTxNotWritable, ()),
       fresh\<lparr>client := Some [''b'' \<mapsto> \<lparr>val = ''c'', ttl = None\<rparr>],
             open_tx := Some \<lparr>writable = False, items = [''b'' \<mapsto> \<lparr>val = ''c'', ttl = None\<rparr>]\<rparr>\<rparr>)
   \<and> RCoverTx (RWCoverTx (run (TxSet ''c'' ''d'' None))) ()
        (fresh\<lparr>client := Some [''b'' \<mapsto> \<lparr>val = ''c'', ttl = None\<rparr>]\<rparr>)
    = ((Some ErrTxNotWritable, ()), fresh\<lparr>client := Some [''b'' \<mapsto> \<lparr>val = ''c'', ttl = None\<rparr>]\<rparr>)
   \<and> lookup (snd (RCoverTx (RWCoverTx (run (TxSet ''c'' ''d'' None))) ()
        (fresh\<lparr>client := Some [''b'' \<mapsto> \<lparr>val = ''c'', ttl = None\<rparr>]\<rparr>))) ''c'' = None"
  using read_chain_refuses_writes
      [of "fresh\<lparr>client := Some [''b'' \<mapsto> \<lparr>val = ''c'', ttl = None\<rparr>],
             open_tx := Some \<lparr>writable = False, items = [''b'' \<mapsto> \<lparr>val = ''c'', ttl = None\<rparr>]\<rparr>\<rparr>"
          "[''b'' \<mapsto> \<lparr>val = ''c'', ttl = None\<rparr>]"
          "\<lparr>writable = False, items = [''b'' \<mapsto> \<lparr>val = ''c'', ttl = None\<rparr>]\<rparr>"
          "run (TxSet ''c'' ''d'' None)" "()" "''c''" "''d''" None]
    read_chain_refuses_writes
      [of "fresh\<lparr>client := Some [''b'' \<mapsto> \<lparr>val = ''c'', ttl = None\<rparr>]\<rparr>"
          "[''b'' \<mapsto> \<lparr>val = ''c'', ttl = None\<rparr>]" "\<lparr>writable = False, items = Map.empty\<rparr>"
          "run (TxSet ''c'' ''d'' None)" "()" "''c''" "''d''" None]
  by (simp add: fresh_def lookup_def)

subsection \<open>Before and after \<open>InitBuntDB\<close>\<close>

text \<open>
  C8.  While the engine handle is unset, \<open>GetClient\<close> returns \<open>ErrNotInitialized\<close>,
  and \<open>RCoverTx\<close> and \<open>RWCoverTx\<close> return \<open>ErrNotInitialized\<close> whatever the callback
  is, leaving the chain and the callback's captured variables untouched.  After a
  successful \<open>InitBuntDB\<close>, \<open>GetClient\<close> returns the handle and both cover calls
  return what the callback returns on a transaction newly opened over the store
  (the read-write one then commits or rolls back).  An \<open>InitBuntDB\<close> that fails
  leaves the chain as it was, the handle still unset; \<open>InitBuntDB\<close> of the in-memory
  target succeeds on the fresh chain.
\<close>

theorem not_initialized_before_init:
  "(client s = None \<longrightarrow>
        GetClient s = Inl ErrNotInitialized
      \<and> RCoverTx f l s = ((Some ErrNotInitialized, l), s)
      \<and> RWCoverTx f l s = ((Some ErrNotInitialized, l), s))
   \<and> (client s = None \<and> open_tx s = None \<and> InitBuntDB disk dbpath s = (None, s') \<longrightarrow>
        (\<exists>d. GetClient s' = Inr d
           \<and> RCoverTx f l s' =
               (case f l (s'\<lparr>open_tx := Some \<lparr>writable = False, items = d\<rparr>\<rparr>) of
                  (r, t) \<Rightarrow> (r, t\<lparr>open_tx := None\<rparr>))
           \<and> RWCoverTx f l s' =
               (case f l (s'\<lparr>open_tx := Some \<lparr>writable = True, items = d\<rparr>\<rparr>) of
                  ((Some e, l'), t) \<Rightarrow> ((Some e, l'), rollback t)
                | ((None, l'), t) \<Rightarrow> (case commit t of (r, t') \<Rightarrow> ((r, l'), t')))))
   \<and> (InitBuntDB disk dbpath s = (Some err, s') \<longrightarrow> s' = s)
   \<and> InitBuntDB disk MEMORYDB fresh = (None, fresh\<lparr>client := Some Map.empty\<rparr>)"
proof -
  have failed: "s' = s" if "InitBuntDB disk dbpath s = (Some err, s')"
    using that by (auto simp: InitBuntDB_def split: option.splits sum.splits)
  have before: "GetClient s = Inl ErrNotInitialized
      \<and> RCoverTx f l s = ((Some ErrNotInitialized, l), s)
      \<and> RWCoverTx f l s = ((Some ErrNotInitialized, l), s)" if "client s = None"
    using that by (simp add: GetClient_def RCoverTx_uninit RWCoverTx_uninit)
  have after: "\<exists>d. GetClient s' = Inr d
           \<and> RCoverTx f l s' =
               (case f l (s'\<lparr>open_tx := Some \<lparr>writable = False, items = d\<rparr>\<rparr>) of
                  (r, t) \<Rightarrow> (r, t\<lparr>open_tx := None\<rparr>))
           \<and> RWCoverTx f l s' =
               (case f l (s'\<lparr>open_tx := Some \<lparr>writable = True, items = d\<rparr>\<rparr>) of
                  ((Some e, l'), t) \<Rightarrow> ((Some e, l'), rollback t)
                | ((None, l'), t) \<Rightarrow> (case commit t of (r, t') \<Rightarrow> ((r, l'), t')))"
    if "client s = None" "open_tx s = None" "InitBuntDB disk dbpath s = (None, s')"
  proof -
    from that obtain d where "s' = s\<lparr>client := Some d\<rparr>"
      by (auto simp: InitBuntDB_def split: sum.splits)
    with that(2) have "client s' = Some d" "open_tx s' = None" by simp_all
    then show ?thesis
      by (intro exI [of _ d]) (simp add: GetClient_def RCoverTx_outer RWCoverTx_outer)
  qed
  have "InitBuntDB disk MEMORYDB fresh = (None, fresh\<lparr>client := Some Map.empty\<rparr>)"
    by (simp add: InitBuntDB_def fresh_def)
  with before after failed show ?thesis by blast
qed

theorem not_initialized_before_init_witness:
  "GetClient fresh = Inl ErrNotInitialized
   \<and> RCoverTx (run (Return None)) () fresh = ((Some ErrNotInitialized, ()), fresh)
   \<and> RWCoverTx (run (Return None)) () fresh = ((Some ErrNotInitialized, ()), fresh)
   \<and> GetClient (fresh\<lparr>client := Some Map.empty\<rparr>) = Inr Map.empty
   \<and> RCoverTx (run (Return None)) () (fresh\<lparr>client := Some Map.empty\<rparr>)
       = ((None, ()), fresh\<lparr>client := Some Map.empty\<rparr>)
   \<and> RWCoverTx (run (TxSet ''a'' ''b'' None)) () (fresh\<lparr>client := Some Map.empty\<rparr>)
       = ((None, ()), fresh\<lparr>client := Some [''a'' \<mapsto> \<lparr>val = ''b'', ttl = None\<rparr>], endings := [Commit]\<rparr>)
   \<and> snd (InitBuntDB (\<lambda>p. Inl (ErrNew ''open failed'')) (Path ''db'') fresh) = fresh"
proof -
  have init: "InitBuntDB (\<lambda>p. Inl ErrNotFound) MEMORYDB fresh = (None, fresh\<lparr>client := Some Map.empty\<rparr>)"
    by (simp add: InitBuntDB_def fresh_def)
  have f: "client fresh = None" "open_tx fresh = None" by (simp_all add: fresh_def)
  show ?thesis
    using not_initialized_before_init [of fresh "run (Return None)" "()" "\<lambda>p. Inl ErrNotFound" MEMORYDB
        "fresh\<lparr>client := Some Map.empty\<rparr>"]
      not_initialized_before_init [of fresh "run (TxSet ''a'' ''b'' None)" "()" "\<lambda>p. Inl ErrNotFound" MEMORYDB
        "fresh\<lparr>client := Some Map.empty\<rparr>"]
      not_initialized_before_init [of fresh "run (Return None)" "()" "\<lambda>p. Inl (ErrNew ''open failed'')"
        "Path ''db''" "snd (InitBuntDB (\<lambda>p. Inl (ErrNew ''open failed'')) (Path ''db'') fresh)"
        "ErrNew ''open failed''"]
      init f
    by (simp add: evals GetClient_def InitBuntDB_def)
qed

subsection \<open>Key names\<close>

text \<open>
  C7.  \<open>NamedKey\<close> gives the tag followed by each segment, joined by colons: the
  tag alone for no segments, and one more colon and rendered segment for each
  segment appended.  A string segment is rendered verbatim, a boolean as \<open>true\<close> or
  \<open>false\<close>, and an integer of any of Go's widths, signed or unsigned, as the decimal
  text of its value: the text is in canonical form (a minus sign for a negative
  value, digits only, no leading zero) and denotes the value, and two canonical
  texts of one value are the same text, so the rendering is the only one possible.
  The two keys of \<open>TestNamedKey\<close> come out as the test expects.
\<close>

theorem NamedKey_colon_joined:
  "NamedKey ''t1'' [SString ''s1'', SString ''s2'', SInt32 3, SInt64 4] = ''t1:s1:s2:3:4''
   \<and> NamedKey ''t2'' [SString ''s3'', SUint32 5, SBool False] = ''t2:s3:5:false''
   \<and> NamedKey name [] = name
   \<and> NamedKey name (keys @ [k]) = NamedKey name keys @ '':'' @ render k
   \<and> render (SString str) = str
   \<and> render (SBool True) = ''true'' \<and> render (SBool False) = ''false''
   \<and> decimal_value (render (SInt i)) = sint i
   \<and> decimal_value (render (SInt8 i8)) = sint i8
   \<and> decimal_value (render (SInt16 i16)) = sint i16
   \<and> decimal_value (render (SInt32 i32)) = sint i32
   \<and> decimal_value (render (SInt64 i64)) = sint i64
   \<and> decimal_value (render (SUint u)) = uint u
   \<and> decimal_value (render (SUint8 u8)) = uint u8
   \<and> decimal_value (render (SUint16 u16)) = uint u16
   \<and> decimal_value (render (SUint32 u32)) = uint u32
   \<and> decimal_value (render (SUint64 u64)) = uint u64
   \<and> render (SInt64 (- 12)) = ''-12''
   \<and> render (SUint8 255) = ''255''
   \<and> canonical_decimal (render (SInt i))
   \<and> canonical_decimal (render (SInt8 i8))
   \<and> canonical_decimal (render (SInt16 i16))
   \<and> canonical_decimal (render (SInt32 i32))
   \<and> canonical_decimal (render (SInt64 i64))
   \<and> canonical_decimal (render (SUint u))
   \<and> canonical_decimal (render (SUint8 u8))
   \<and> canonical_decimal (render (SUint16 u16))
   \<and> canonical_decimal (render (SUint32 u32))
   \<and> canonical_decimal (render (SUint64 u64))
   \<and> (canonical_decimal a \<and> canonical_decimal b \<and> decimal_value a = decimal_value b \<longrightarrow> a = b)"
proof -
  have ex1: "NamedKey ''t1'' [SString ''s1'', SString ''s2'', SInt32 3, SInt64 4] = ''t1:s1:s2:3:4''"
    by (simp add: NamedKey_def FormatInt_def digits.simps [of 3] digits.simps [of 4] digit_char_def)
  have ex2: "NamedKey ''t2'' [SString ''s3'', SUint32 5, SBool False] = ''t2:s3:5:false''"
    by (simp add: NamedKey_def FormatInt_def FormatBool_def digits.simps [of 5] digit_char_def)
  have ex3: "render (SInt64 (- 12)) = ''-12''"
    by (simp add: FormatInt_def digits.simps [of 12] digits.simps [of "Suc 0"] digit_char_def)
  have ex4: "render (SUint8 255) = ''255''"
    by (simp add: FormatInt_def digits.simps [of 255] digits.simps [of 25] digits.simps [of 2]
        digit_char_def)
  have empty: "NamedKey name [] = name" by (simp add: NamedKey_def)
  have bools: "render (SBool True) = ''true'' \<and> render (SBool False) = ''false''"
    by (simp add: FormatBool_def)
  have unique: "a = b"
    if "canonical_decimal a" "canonical_decimal b" "decimal_value a = decimal_value b"
    using that by (rule canonical_decimal_unique)
  show ?thesis
    using ex1 ex2 ex3 ex4 empty bools unique NamedKey_snoc [of name keys k]
    by (simp add: decimal_value_FormatInt canonical_decimal_FormatInt)
qed

theorem NamedKey_colon_joined_witness:
  "canonical_decimal ''-12'' \<and> canonical_decimal (render (SInt64 (- 12)))
   \<and> decimal_value ''-12'' = - 12 \<and> decimal_value (render (SInt64 (- 12))) = - 12
   \<and> render (SInt64 (- 12)) = ''-12''
   \<and> \<not> canonical_decimal ''+12'' \<and> \<not> canonical_decimal ''0012'' \<and> \<not> canonical_decimal ''-0''"
proof -
  have c12: "canonical_decimal ''-12''"
    by (simp add: canonical_decimal_def Let_def is_digit_def)
  have v: "decimal_value ''-12'' = - 12"
    by (simp add: decimal_value_def parse_digits_def digit_val_def)
  note inst = NamedKey_colon_joined [where ?i64.0 = "- 12" and a = "''-12''" and b = "render (SInt64 (- 12))"]
  have r: "canonical_decimal (render (SInt64 (- 12)))"
    using inst by blast
  have "decimal_value (render (SInt64 (- 12))) = sint (- 12 :: 64 word)"
    using inst by blast
  then have rv: "decimal_value (render (SInt64 (- 12))) = - 12" by simp
  have u: "canonical_decimal ''-12'' \<and> canonical_decimal (render (SInt64 (- 12)))
            \<and> decimal_value ''-12'' = decimal_value (render (SInt64 (- 12)))
            \<longrightarrow> ''-12'' = render (SInt64 (- 12))"
    using inst by blast
  from u c12 r v rv have "render (SInt64 (- 12)) = ''-12''" by simp
  moreover have "\<not> canonical_decimal ''+12''" "\<not> canonical_decimal ''0012''" "\<not> canonical_decimal ''-0''"
    by (simp_all add: canonical_decimal_def Let_def is_digit_def)
  ultimately show ?thesis using c12 r v rv by simp
qed

subsection \<open>Deleting what is absent\<close>

text \<open>
  C3 (as amended).  \<open>ClearByMid\<close> never returns \<open>ErrNotFound\<close> (unless persistence
  itself fails with it): on a ready chain with no transaction open and working
  persistence it returns nil and all five of its keys are absent afterwards,
  whichever of them were present, in one committed transaction; its loop returns
  nil exactly when every collected error is nil or \<open>ErrNotFound\<close>, and otherwise the
  first other error.  \<open>DeleteNewsAndLiveInfo\<close> tolerates \<open>ErrNotFound\<close> of its first
  delete: with the news record present it returns nil and both keys are absent
  afterwards, whether or not the live record was present.  \<open>DeleteLiveInfo\<close> and
  \<open>DeleteNewsInfo\<close> return the error of the engine's delete unchanged: nil with
  the record removed when it was present, \<open>ErrNotFound\<close> with the transaction rolled
  back when it was absent.
\<close>

theorem absent_key_deletes:
  "(commit_fault s \<noteq> Some ErrNotFound \<longrightarrow> fst (ClearByMid c mid s) \<noteq> Some ErrNotFound)
   \<and> (client s = Some d \<and> open_tx s = None \<and> commit_fault s = None \<longrightarrow>
        ClearByMid c mid s =
          (None, s\<lparr>client := Some (d(CurrentLiveKey c [SInt64 mid] := None,
                      CurrentNewsKey c [SInt64 mid] := None, UidFirstTimestamp c [SInt64 mid] := None,
                      UserInfoKey c [SInt64 mid] := None, NotLiveKey c [SInt64 mid] := None)),
                   endings := endings s @ [Commit]\<rparr>)
      \<and> (CurrentLiveKey c [SInt64 mid] \<noteq> CurrentNewsKey c [SInt64 mid]
           \<and> d (CurrentNewsKey c [SInt64 mid]) \<noteq> None \<longrightarrow>
          DeleteNewsAndLiveInfo c mid s =
            (None, s\<lparr>client := Some (d(CurrentLiveKey c [SInt64 mid] := None,
                        CurrentNewsKey c [SInt64 mid] := None)),
                     endings := endings s @ [Commit]\<rparr>))
      \<and> DeleteLiveInfo c mid s =
          (if d (CurrentLiveKey c [SInt64 mid]) = None
           then (Some ErrNotFound, s\<lparr>endings := endings s @ [Rollback]\<rparr>)
           else (None, s\<lparr>client := Some (d(CurrentLiveKey c [SInt64 mid] := None)),
                         endings := endings s @ [Commit]\<rparr>))
      \<and> DeleteNewsInfo c mid s =
          (if d (CurrentNewsKey c [SInt64 mid]) = None
           then (Some ErrNotFound, s\<lparr>endings := endings s @ [Rollback]\<rparr>)
           else (None, s\<lparr>client := Some (d(CurrentNewsKey c [SInt64 mid] := None)),
                         endings := endings s @ [Commit]\<rparr>)))
   \<and> (first_failure errs = None) = list_all (\<lambda>e. e = None \<or> e = Some ErrNotFound) errs
   \<and> (first_failure errs = Some e \<longrightarrow> e \<noteq> ErrNotFound \<and> Some e \<in> set errs)"
  using ClearByMid_never_NotFound [of s c mid] ClearByMid_outer [of s d c mid]
    DeleteNewsAndLiveInfo_outer [of s d c mid] DeleteLiveInfo_outer [of s d c mid]
    DeleteNewsInfo_outer [of s d c mid] first_failure_None [of errs] first_failure_Some [of errs e]
  by blast

theorem absent_key_deletes_witness:
  "fst (ClearByMid NewExtraKey 42
          (fresh\<lparr>client := Some [''CurrentNews:42'' \<mapsto> \<lparr>val = ''n'', ttl = None\<rparr>,
                                  ''UserInfo:42'' \<mapsto> \<lparr>val = ''u'', ttl = None\<rparr>]\<rparr>)) = None
   \<and> lookup (snd (ClearByMid NewExtraKey 42
          (fresh\<lparr>client := Some [''CurrentNews:42'' \<mapsto> \<lparr>val = ''n'', ttl = None\<rparr>,
                                  ''UserInfo:42'' \<mapsto> \<lparr>val = ''u'', ttl = None\<rparr>]\<rparr>))) ''UserInfo:42'' = None
   \<and> lookup (snd (ClearByMid NewExtraKey 42
          (fresh\<lparr>client := Some [''CurrentNews:42'' \<mapsto> \<lparr>val = ''n'', ttl = None\<rparr>,
                                  ''UserInfo:42'' \<mapsto> \<lparr>val = ''u'', ttl = None\<rparr>]\<rparr>))) ''CurrentNews:42'' = None
   \<and> fst (DeleteNewsAndLiveInfo NewExtraKey 42
          (fresh\<lparr>client := Some [''CurrentNews:42'' \<mapsto> \<lparr>val = ''n'', ttl = None\<rparr>,
                                  ''UserInfo:42'' \<mapsto> \<lparr>val = ''u'', ttl = None\<rparr>]\<rparr>)) = None
   \<and> fst (DeleteLiveInfo NewExtraKey 42
          (fresh\<lparr>client := Some [''CurrentNews:42'' \<mapsto> \<lparr>val = ''n'', ttl = None\<rparr>,
                                  ''UserInfo:42'' \<mapsto> \<lparr>val = ''u'', ttl = None\<rparr>]\<rparr>)) = Some ErrNotFound
   \<and> fst (DeleteNewsInfo NewExtraKey 42
          (fresh\<lparr>client := Some [''CurrentNews:42'' \<mapsto> \<lparr>val = ''n'', ttl = None\<rparr>,
                                  ''UserInfo:42'' \<mapsto> \<lparr>val = ''u'', ttl = None\<rparr>]\<rparr>)) = None
   \<and> first_failure [Some ErrNotFound, None, Some ErrNotFound] = None
   \<and> first_failure [Some ErrNotFound, Some ErrTxClosed, None] = Some ErrTxClosed"
  using absent_key_deletes
    [of "fresh\<lparr>client := Some [''CurrentNews:42'' \<mapsto> \<lparr>val = ''n'', ttl = None\<rparr>,
                                  ''UserInfo:42'' \<mapsto> \<lparr>val = ''u'', ttl = None\<rparr>]\<rparr>"
        NewExtraKey 42
        "[''CurrentNews:42'' \<mapsto> \<lparr>val = ''n'', ttl = None\<rparr>, ''UserInfo:42'' \<mapsto> \<lparr>val = ''u'', ttl = None\<rparr>]"
        "[Some ErrNotFound, None, Some ErrNotFound]" ErrTxClosed]
    absent_key_deletes
    [of "fresh\<lparr>client := Some [''CurrentNews:42'' \<mapsto> \<lparr>val = ''n'', ttl = None\<rparr>,
                                  ''UserInfo:42'' \<mapsto> \<lparr>val = ''u'', ttl = None\<rparr>]\<rparr>"
        NewExtraKey 42
        "[''CurrentNews:42'' \<mapsto> \<lparr>val = ''n'', ttl = None\<rparr>, ''UserInfo:42'' \<mapsto> \<lparr>val = ''u'', ttl = None\<rparr>]"
        "[Some ErrNotFound, Some ErrTxClosed, None]" ErrTxClosed]
  by (simp add: NewExtraKey_def NamedKey_42 fresh_def lookup_def)

theorem delete_of_absent_key_is_NotFound:
  "DeleteLiveInfo NewExtraKey 42 (fresh\<lparr>client := Some Map.empty\<rparr>)
     = (Some ErrNotFound, fresh\<lparr>client := Some Map.empty, endings := [Rollback]\<rparr>)
   \<and> DeleteNewsInfo NewExtraKey 42 (fresh\<lparr>client := Some Map.empty\<rparr>)
     = (Some ErrNotFound, fresh\<lparr>client := Some Map.empty, endings := [Rollback]\<rparr>)"
  by (simp add: DeleteLiveInfo_def DeleteNewsInfo_def evals)

subsection \<open>Writing a live session\<close>

text \<open>
  C4.  For a non-nil \<open>liveInfo\<close>, \<open>AddLiveInfo\<close> does exactly this.  On a ready chain
  with no transaction open and working persistence it returns nil, and the store
  afterwards is the store before with the user-info record under \<open>UserInfoKey(mid)\<close>
  (no expiry) and the live record under \<open>CurrentLiveKey(mid)\<close> (time to live 7 days,
  604800000000000 ns), both put there by one transaction that is committed once
  and then closed.  Inside an open read-write transaction it returns nil and that
  transaction holds both records, nothing being committed yet.  In every other case
  it returns an error and neither write is made: \<open>ErrNotInitialized\<close> and
  \<open>ErrTxNotWritable\<close> leave the chain as it was, and a failure of persistence leaves
  the store as it was and records the rollback.  Where the two keys differ: after a
  nil return a read on the chain finds both records and every other key as before;
  after an error every key reads as before.
\<close>

theorem AddLiveInfo_both_or_neither:
  "AddLiveInfo c (Some li) s =
    (case client s of
       None \<Rightarrow> (Some ErrNotInitialized, s)
     | Some d \<Rightarrow>
        (case open_tx s of
           Some tx \<Rightarrow>
             if writable tx
             then (None, s\<lparr>open_tx := Some (tx\<lparr>items := (items tx)
                     (UserInfoKey c [SInt64 (Mid (LiveInfo_UserInfo li))] \<mapsto>
                        \<lparr>val = UserInfo_ToString (LiveInfo_UserInfo li), ttl = None\<rparr>,
                      CurrentLiveKey c [SInt64 (Mid (LiveInfo_UserInfo li))] \<mapsto>
                        \<lparr>val = LiveInfo_ToString li, ttl = Some 604800000000000\<rparr>)\<rparr>)\<rparr>)
             else (Some ErrTxNotWritable, s)
         | None \<Rightarrow>
            (case commit_fault s of
               Some e \<Rightarrow> (Some e, s\<lparr>endings := endings s @ [Rollback]\<rparr>)
             | None \<Rightarrow> (None, s\<lparr>client := Some (d
                     (UserInfoKey c [SInt64 (Mid (LiveInfo_UserInfo li))] \<mapsto>
                        \<lparr>val = UserInfo_ToString (LiveInfo_UserInfo li), ttl = None\<rparr>,
                      CurrentLiveKey c [SInt64 (Mid (LiveInfo_UserInfo li))] \<mapsto>
                        \<lparr>val = LiveInfo_ToString li, ttl = Some 604800000000000\<rparr>)),
                   endings := endings s @ [Commit]\<rparr>))))
   \<and> (UserInfoKey c [SInt64 (Mid (LiveInfo_UserInfo li))] \<noteq> CurrentLiveKey c [SInt64 (Mid (LiveInfo_UserInfo li))] \<longrightarrow>
       (fst (AddLiveInfo c (Some li) s) = None \<longrightarrow>
            lookup (snd (AddLiveInfo c (Some li) s)) (UserInfoKey c [SInt64 (Mid (LiveInfo_UserInfo li))])
              = Some \<lparr>val = UserInfo_ToString (LiveInfo_UserInfo li), ttl = None\<rparr>
          \<and> lookup (snd (AddLiveInfo c (Some li) s)) (CurrentLiveKey c [SInt64 (Mid (LiveInfo_UserInfo li))])
              = Some \<lparr>val = LiveInfo_ToString li, ttl = Some 604800000000000\<rparr>
          \<and> (\<forall>k. k \<noteq> UserInfoKey c [SInt64 (Mid (LiveInfo_UserInfo li))]
                 \<and> k \<noteq> CurrentLiveKey c [SInt64 (Mid (LiveInfo_UserInfo li))] \<longrightarrow>
                 lookup (snd (AddLiveInfo c (Some li) s)) k = lookup s k)
          \<and> endings (snd (AddLiveInfo c (Some li) s))
              = (if open_tx s = None then endings s @ [Commit] else endings s))
     \<and> (fst (AddLiveInfo c (Some li) s) \<noteq> None \<longrightarrow>
            (\<forall>k. lookup (snd (AddLiveInfo c (Some li) s)) k = lookup s k)
          \<and> client (snd (AddLiveInfo c (Some li) s)) = client s
          \<and> open_tx (snd (AddLiveInfo c (Some li) s)) = open_tx s)
     \<and> (fst (AddLiveInfo c (Some li) s) = None)
         = (client s \<noteq> None \<and> (case open_tx s of None \<Rightarrow> commit_fault s = None | Some tx \<Rightarrow> writable tx)))"
proof -
  have reads: "(fst (AddLiveInfo c (Some li) s) = None \<longrightarrow>
            lookup (snd (AddLiveInfo c (Some li) s)) (UserInfoKey c [SInt64 (Mid (LiveInfo_UserInfo li))])
              = Some \<lparr>val = UserInfo_ToString (LiveInfo_UserInfo li), ttl = None\<rparr>
          \<and> lookup (snd (AddLiveInfo c (Some li) s)) (CurrentLiveKey c [SInt64 (Mid (LiveInfo_UserInfo li))])
              = Some \<lparr>val = LiveInfo_ToString li, ttl = Some 604800000000000\<rparr>
          \<and> (\<forall>k. k \<noteq> UserInfoKey c [SInt64 (Mid (LiveInfo_UserInfo li))]
                 \<and> k \<noteq> CurrentLiveKey c [SInt64 (Mid (LiveInfo_UserInfo li))] \<longrightarrow>
                 lookup (snd (AddLiveInfo c (Some li) s)) k = lookup s k)
          \<and> endings (snd (AddLiveInfo c (Some li) s))
              = (if open_tx s = None then endings s @ [Commit] else endings s))
     \<and> (fst (AddLiveInfo c (Some li) s) \<noteq> None \<longrightarrow>
            (\<forall>k. lookup (snd (AddLiveInfo c (Some li) s)) k = lookup s k)
          \<and> client (snd (AddLiveInfo c (Some li) s)) = client s
          \<and> open_tx (snd (AddLiveInfo c (Some li) s)) = open_tx s)
     \<and> (fst (AddLiveInfo c (Some li) s) = None)
         = (client s \<noteq> None \<and> (case open_tx s of None \<Rightarrow> commit_fault s = None | Some tx \<Rightarrow> writable tx))"
    if "UserInfoKey c [SInt64 (Mid (LiveInfo_UserInfo li))] \<noteq> CurrentLiveKey c [SInt64 (Mid (LiveInfo_UserInfo li))]"
    using that by (auto simp: AddLiveInfo_cases lookup_def split: option.splits)
  show ?thesis
    using AddLiveInfo_cases [of c li s] reads by blast
qed

theorem AddLiveInfo_both_or_neither_witness:
  "AddLiveInfo NewExtraKey
      (Some \<lparr>LiveInfo_UserInfo = \<lparr>Mid = 42, UserInfo_ToString = ''u42''\<rparr>, LiveInfo_ToString = ''live42''\<rparr>)
      (fresh\<lparr>client := Some Map.empty\<rparr>)
     = (None, fresh\<lparr>client := Some [''UserInfo:42'' \<mapsto> \<lparr>val = ''u42'', ttl = None\<rparr>,
                                       ''CurrentLive:42'' \<mapsto> \<lparr>val = ''live42'', ttl = Some 604800000000000\<rparr>],
                     endings := [Commit]\<rparr>)
   \<and> AddLiveInfo NewExtraKey
      (Some \<lparr>LiveInfo_UserInfo = \<lparr>Mid = 42, UserInfo_ToString = ''u42''\<rparr>, LiveInfo_ToString = ''live42''\<rparr>)
      (fresh\<lparr>client := Some Map.empty, open_tx := Some \<lparr>writable = True, items = Map.empty\<rparr>\<rparr>)
     = (None, fresh\<lparr>client := Some Map.empty,
                     open_tx := Some \<lparr>writable = True,
                        items = [''UserInfo:42'' \<mapsto> \<lparr>val = ''u42'', ttl = None\<rparr>,
                                 ''CurrentLive:42'' \<mapsto> \<lparr>val = ''live42'', ttl = Some 604800000000000\<rparr>]\<rparr>\<rparr>)
   \<and> AddLiveInfo NewExtraKey
      (Some \<lparr>LiveInfo_UserInfo = \<lparr>Mid = 42, UserInfo_ToString = ''u42''\<rparr>, LiveInfo_ToString = ''live42''\<rparr>)
      (fresh\<lparr>client := Some Map.empty, commit_fault := Some (ErrNew ''disk full'')\<rparr>)
     = (Some (ErrNew ''disk full''),
        fresh\<lparr>client := Some Map.empty, commit_fault := Some (ErrNew ''disk full''), endings := [Rollback]\<rparr>)
   \<and> lookup (snd (AddLiveInfo NewExtraKey
          (Some \<lparr>LiveInfo_UserInfo = \<lparr>Mid = 42, UserInfo_ToString = ''u42''\<rparr>, LiveInfo_ToString = ''live42''\<rparr>)
          (fresh\<lparr>client := Some Map.empty\<rparr>))) ''UserInfo:42''
       = Some \<lparr>val = ''u42'', ttl = None\<rparr>
   \<and> lookup (snd (AddLiveInfo NewExtraKey
          (Some \<lparr>LiveInfo_UserInfo = \<lparr>Mid = 42, UserInfo_ToString = ''u42''\<rparr>, LiveInfo_ToString = ''live42''\<rparr>)
          (fresh\<lparr>client := Some Map.empty\<rparr>))) ''CurrentLive:42''
       = Some \<lparr>val = ''live42'', ttl = Some 604800000000000\<rparr>
   \<and> lookup (snd (AddLiveInfo NewExtraKey
          (Some \<lparr>LiveInfo_UserInfo = \<lparr>Mid = 42, UserInfo_ToString = ''u42''\<rparr>, LiveInfo_ToString = ''live42''\<rparr>)
          (fresh\<lparr>client := Some Map.empty, commit_fault := Some (ErrNew ''disk full'')\<rparr>))) ''UserInfo:42''
       = None"
  using AddLiveInfo_both_or_neither [of NewExtraKey
      "\<lparr>LiveInfo_UserInfo = \<lparr>Mid = 42, UserInfo_ToString = ''u42''\<rparr>, LiveInfo_ToString = ''live42''\<rparr>"
      "fresh\<lparr>client := Some Map.empty\<rparr>"]
    AddLiveInfo_both_or_neither [of NewExtraKey
      "\<lparr>LiveInfo_UserInfo = \<lparr>Mid = 42, UserInfo_ToString = ''u42''\<rparr>, LiveInfo_ToString = ''live42''\<rparr>"
      "fresh\<lparr>client := Some Map.empty, open_tx := Some \<lparr>writable = True, items = Map.empty\<rparr>\<rparr>"]
    AddLiveInfo_both_or_neither [of NewExtraKey
      "\<lparr>LiveInfo_UserInfo = \<lparr>Mid = 42, UserInfo_ToString = ''u42''\<rparr>, LiveInfo_ToString = ''live42''\<rparr>"
      "fresh\<lparr>client := Some Map.empty, commit_fault := Some (ErrNew ''disk full'')\<rparr>"]
  by (simp add: NewExtraKey_def NamedKey_42 fresh_def lookup_def)

subsection \<open>Has this dynamic been seen\<close>

text \<open>
  C5.  \<open>CheckDynamicId\<close> returns true exactly when the engine is ready and the key
  \<open>DynamicIdKey(dynamic)\<close> is absent from what the chain reads, that is, exactly when
  the callback's \<open>tx.Get\<close> fails with \<open>ErrNotFound\<close> (on the transaction already open
  on the chain, or on the read-only one opened for the call).  It returns false when
  the key is present, and false when the read cannot be made because \<open>RCoverTx\<close>
  returns an error (\<open>ErrNotInitialized\<close>): the error is not returned.  The chain is
  left as it was.
\<close>

theorem CheckDynamicId_true_iff_NotFound:
  "fst (CheckDynamicId c dynamic s)
     = (client s \<noteq> None \<and> lookup s (DynamicIdKey c [SInt64 dynamic]) = None)
   \<and> snd (CheckDynamicId c dynamic s) = s
   \<and> (client s = None \<longrightarrow>
         fst (RCoverTx f l s) = (Some ErrNotInitialized, l)
       \<and> fst (CheckDynamicId c dynamic s) = False)
   \<and> (client s = Some d \<and> open_tx s = Some tx \<longrightarrow>
         fst (CheckDynamicId c dynamic s)
           = (snd (fst (tx_Get (DynamicIdKey c [SInt64 dynamic]) s)) = Some ErrNotFound))
   \<and> (client s = Some d \<and> open_tx s = None \<longrightarrow>
         fst (CheckDynamicId c dynamic s)
           = (snd (fst (tx_Get (DynamicIdKey c [SInt64 dynamic])
                  (s\<lparr>open_tx := Some \<lparr>writable = False, items = d\<rparr>\<rparr>))) = Some ErrNotFound))"
  by (auto simp: CheckDynamicId_cases RCoverTx_uninit tx_Get_def lookup_def split: option.splits)

theorem CheckDynamicId_true_iff_NotFound_witness:
  "fst (CheckDynamicId NewExtraKey 42 fresh) = False
   \<and> fst (CheckDynamicId NewExtraKey 42 (fresh\<lparr>client := Some Map.empty\<rparr>)) = True
   \<and> snd (CheckDynamicId NewExtraKey 42 (fresh\<lparr>client := Some Map.empty\<rparr>))
       = fresh\<lparr>client := Some Map.empty\<rparr>
   \<and> fst (CheckDynamicId NewExtraKey 42
         (fresh\<lparr>client := Some [''DynamicId:42'' \<mapsto> \<lparr>val = [], ttl = Some 432000000000000\<rparr>]\<rparr>))
       = False
   \<and> fst (CheckDynamicId NewExtraKey 42
         (fresh\<lparr>client := Some Map.empty,
                open_tx := Some \<lparr>writable = True,
                   items = [''DynamicId:42'' \<mapsto> \<lparr>val = [], ttl = Some 432000000000000\<rparr>]\<rparr>\<rparr>)) = False"
  using CheckDynamicId_true_iff_NotFound [of NewExtraKey 42 fresh "run (Return None)" "()"]
    CheckDynamicId_true_iff_NotFound [of NewExtraKey 42 "fresh\<lparr>client := Some Map.empty\<rparr>" "run (Return None)" "()" Map.empty]
    CheckDynamicId_true_iff_NotFound [of NewExtraKey 42
      "fresh\<lparr>client := Some [''DynamicId:42'' \<mapsto> \<lparr>val = [], ttl = Some 432000000000000\<rparr>]\<rparr>" "run (Return None)" "()"
      "[''DynamicId:42'' \<mapsto> \<lparr>val = [], ttl = Some 432000000000000\<rparr>]"]
    CheckDynamicId_true_iff_NotFound [of NewExtraKey 42
      "fresh\<lparr>client := Some Map.empty,
              open_tx := Some \<lparr>writable = True,
                 items = [''DynamicId:42'' \<mapsto> \<lparr>val = [], ttl = Some 432000000000000\<rparr>]\<rparr>\<rparr>" "run (Return None)" "()" Map.empty
      "\<lparr>writable = True, items = [''DynamicId:42'' \<mapsto> \<lparr>val = [], ttl = Some 432000000000000\<rparr>]\<rparr>"]
  by (simp add: NewExtraKey_def NamedKey_42 fresh_def lookup_def tx_Get_def)

subsection \<open>The not-live counter\<close>

text \<open>
  C6.  \<open>IncNotLiveCount\<close> returns the number \<open>SeqNext\<close> returns for the key
  \<open>NotLiveKey(uid)\<close> when \<open>SeqNext\<close> returns no error, and 0 whenever it returns one;
  the chain is left as \<open>SeqNext\<close> left it.  So: 0 with the chain untouched before
  \<open>InitBuntDB\<close> and under a read-only transaction; 1, stored as \<open>1\<close>, for an absent
  counter on a ready chain; \<open>n + 1\<close>, stored in decimal, for a counter holding the
  decimal text of \<open>n\<close>; and 0 when persistence fails at commit, although \<open>SeqNext\<close>
  then returns 1 beside the error.
\<close>

theorem IncNotLiveCount_zero_on_error:
  "(SeqNext (NotLiveKey c [SInt64 uid]) s = ((v, err), s') \<longrightarrow>
      IncNotLiveCount c uid s = ((if err = None then v else 0), s'))
   \<and> (client s = None \<longrightarrow> IncNotLiveCount c uid s = (0, s))
   \<and> (client s = Some d \<and> open_tx s = Some tx \<and> \<not> writable tx \<longrightarrow> IncNotLiveCount c uid s = (0, s))
   \<and> (client s = Some d \<and> open_tx s = None \<and> commit_fault s = None
        \<and> d (NotLiveKey c [SInt64 uid]) = None \<longrightarrow>
      IncNotLiveCount c uid s =
        (1, s\<lparr>client := Some (d(NotLiveKey c [SInt64 uid] \<mapsto> \<lparr>val = ''1'', ttl = None\<rparr>)),
               endings := endings s @ [Commit]\<rparr>))
   \<and> (client s = Some d \<and> open_tx s = None \<and> commit_fault s = None
        \<and> d (NotLiveKey c [SInt64 uid]) = Some item \<and> val item = FormatInt (sint n) \<longrightarrow>
      IncNotLiveCount c uid s =
        (n + 1, s\<lparr>client := Some (d(NotLiveKey c [SInt64 uid] \<mapsto>
                                      \<lparr>val = FormatInt (sint (n + 1)), ttl = None\<rparr>)),
                   endings := endings s @ [Commit]\<rparr>))
   \<and> (client s = Some d \<and> open_tx s = None \<and> commit_fault s = Some e
        \<and> d (NotLiveKey c [SInt64 uid]) = None \<longrightarrow>
      SeqNext (NotLiveKey c [SInt64 uid]) s = ((1, Some e), s\<lparr>endings := endings s @ [Rollback]\<rparr>)
      \<and> IncNotLiveCount c uid s = (0, s\<lparr>endings := endings s @ [Rollback]\<rparr>))"
proof -
  have general: "IncNotLiveCount c uid s = ((if err = None then v else 0), s')"
    if "SeqNext (NotLiveKey c [SInt64 uid]) s = ((v, err), s')"
    using that by (simp add: IncNotLiveCount_def)
  have uninit: "IncNotLiveCount c uid s = (0, s)" if "client s = None"
    using that by (simp add: IncNotLiveCount_def SeqNext_uninit)
  have in_read: "IncNotLiveCount c uid s = (0, s)"
    if "client s = Some d" "open_tx s = Some tx" "\<not> writable tx"
    using that by (simp add: IncNotLiveCount_def SeqNext_in_read)
  have first: "IncNotLiveCount c uid s =
        (1, s\<lparr>client := Some (d(NotLiveKey c [SInt64 uid] \<mapsto> \<lparr>val = ''1'', ttl = None\<rparr>)),
               endings := endings s @ [Commit]\<rparr>)"
    if "client s = Some d" "open_tx s = None" "commit_fault s = None" "d (NotLiveKey c [SInt64 uid]) = None"
    using that by (simp add: IncNotLiveCount_def SeqNext_absent)
  have next_one: "IncNotLiveCount c uid s =
        (n + 1, s\<lparr>client := Some (d(NotLiveKey c [SInt64 uid] \<mapsto>
                                      \<lparr>val = FormatInt (sint (n + 1)), ttl = None\<rparr>)),
                   endings := endings s @ [Commit]\<rparr>)"
    if "client s = Some d" "open_tx s = None" "commit_fault s = None"
      "d (NotLiveKey c [SInt64 uid]) = Some item" "val item = FormatInt (sint n)"
    using that by (simp add: IncNotLiveCount_def SeqNext_present [of s d _ item n])
  have fault: "SeqNext (NotLiveKey c [SInt64 uid]) s = ((1, Some e), s\<lparr>endings := endings s @ [Rollback]\<rparr>)
      \<and> IncNotLiveCount c uid s = (0, s\<lparr>endings := endings s @ [Rollback]\<rparr>)"
    if "client s = Some d" "open_tx s = None" "commit_fault s = Some e" "d (NotLiveKey c [SInt64 uid]) = None"
    using that by (simp add: IncNotLiveCount_def SeqNext_absent)
  show ?thesis
    using general uninit in_read first next_one fault by blast
qed

theorem IncNotLiveCount_zero_on_error_witness:
  "IncNotLiveCount NewExtraKey 42 fresh = (0, fresh)
   \<and> IncNotLiveCount NewExtraKey 42 (fresh\<lparr>client := Some Map.empty\<rparr>)
       = (1, fresh\<lparr>client := Some [''NotLive:42'' \<mapsto> \<lparr>val = ''1'', ttl = None\<rparr>], endings := [Commit]\<rparr>)
   \<and> IncNotLiveCount NewExtraKey 42
         (fresh\<lparr>client := Some [''NotLive:42'' \<mapsto> \<lparr>val = ''1'', ttl = None\<rparr>]\<rparr>)
       = (2, fresh\<lparr>client := Some [''NotLive:42'' \<mapsto> \<lparr>val = ''2'', ttl = None\<rparr>], endings := [Commit]\<rparr>)
   \<and> IncNotLiveCount NewExtraKey 42
         (fresh\<lparr>client := Some Map.empty, commit_fault := Some (ErrNew ''disk full'')\<rparr>)
       = (0, fresh\<lparr>client := Some Map.empty, commit_fault := Some (ErrNew ''disk full''), endings := [Rollback]\<rparr>)
   \<and> IncNotLiveCount NewExtraKey 42
         (fresh\<lparr>client := Some Map.empty, open_tx := Some \<lparr>writable = False, items = Map.empty\<rparr>\<rparr>)
       = (0, fresh\<lparr>client := Some Map.empty, open_tx := Some \<lparr>writable = False, items = Map.empty\<rparr>\<rparr>)"
proof -
  have one: "FormatInt (sint (1 :: 64 word)) = ''1''"
    by (simp add: FormatInt_def digits.simps [of "Suc 0"] digit_char_def)
  have two: "FormatInt (sint (1 + 1 :: 64 word)) = ''2''"
    by (simp add: FormatInt_def digits.simps [of 2] digit_char_def)
  show ?thesis
    using IncNotLiveCount_zero_on_error [of NewExtraKey 42 fresh 0 "Some ErrNotInitialized" fresh]
      IncNotLiveCount_zero_on_error [of NewExtraKey 42 "fresh\<lparr>client := Some Map.empty\<rparr>" 0 None fresh Map.empty]
      IncNotLiveCount_zero_on_error [of NewExtraKey 42
        "fresh\<lparr>client := Some [''NotLive:42'' \<mapsto> \<lparr>val = ''1'', ttl = None\<rparr>]\<rparr>" 0 None fresh
        "[''NotLive:42'' \<mapsto> \<lparr>val = ''1'', ttl = None\<rparr>]" _ "\<lparr>val = ''1'', ttl = None\<rparr>" 1]
      IncNotLiveCount_zero_on_error [of NewExtraKey 42
        "fresh\<lparr>client := Some Map.empty, commit_fault := Some (ErrNew ''disk full'')\<rparr>" 0 None fresh
        Map.empty _ _ _ "ErrNew ''disk full''"]
      IncNotLiveCount_zero_on_error [of NewExtraKey 42
        "fresh\<lparr>client := Some Map.empty, open_tx := Some \<lparr>writable = False, items = Map.empty\<rparr>\<rparr>" 0 None fresh
        Map.empty "\<lparr>writable = False, items = Map.empty\<rparr>"]
      one two
    by (simp add: NewExtraKey_def NamedKey_42 fresh_def)
qed

end
